theory Spec2Isabelle
  imports Complex_Main "HOL-Library.Char_ord" "HOL-Library.List_Lexorder" "HOL-Library.Sublist"
begin

section \<open>Creo2Urdf: the conversion of a CAD assembly into a robot model\<close>

text \<open>
  The development follows \<^verbatim>\<open>src/creo2urdf/src/Creo2Urdf.cpp\<close>. The class members of
  \<^verbatim>\<open>Creo2Urdf\<close> are the fields of one record that every member function takes and
  returns. A \<^verbatim>\<open>double\<close> is a \<^typ>\<open>real\<close>: the properties below are about which
  value is stored where and which operation is applied, never about rounding.
\<close>

subsection \<open>Strings\<close>

text \<open>
  \<^verbatim>\<open>std::string::find(pat)\<close>: the first position at which \<^verbatim>\<open>pat\<close> starts, and
  \<^verbatim>\<open>npos\<close> (here \<open>None\<close>) when there is none.
\<close>

fun str_find :: "string \<Rightarrow> string \<Rightarrow> nat option" where
  "str_find [] pat = (if pat = [] then Some 0 else None)"
| "str_find (c # cs) pat =
     (if prefix pat (c # cs) then Some 0 else map_option Suc (str_find cs pat))"

subsection \<open>The message window\<close>

datatype c2uLogLevel = INFO | WARN

type_synonym message = "c2uLogLevel \<times> string"

subsection \<open>Containers\<close>

text \<open>
  A \<^verbatim>\<open>std::map<std::string, V>\<close> is a list of pairs kept in key order, the order in
  which the source's range-for loops visit it. \<^verbatim>\<open>find(k) != end()\<close> is
  \<open>map_of m k \<noteq> None\<close>, \<^verbatim>\<open>insert\<close> leaves an existing key alone, and a write through
  the reference that \<^verbatim>\<open>at(k)\<close> returns is \<open>map_modify\<close>.
\<close>

definition map_insert :: "string \<Rightarrow> 'v \<Rightarrow> (string \<times> 'v) list \<Rightarrow> (string \<times> 'v) list" where
  "map_insert k v m = (if map_of m k = None then insort_key fst (k, v) m else m)"

definition map_modify :: "string \<Rightarrow> ('v \<Rightarrow> 'v) \<Rightarrow> (string \<times> 'v) list \<Rightarrow> (string \<times> 'v) list" where
  "map_modify k f m = map (\<lambda>(k', v). if k' = k then (k', f v) else (k', v)) m"

datatype array3 = Array3 real real real

fun get3 :: "array3 \<Rightarrow> nat \<Rightarrow> real" where
  "get3 (Array3 a b c) i = (if i = 0 then a else if i = 1 then b else c)"

datatype array6 = Array6 real real real real real real

subsection \<open>Rigid transforms, directions and inertias of the model library\<close>

text \<open>
  The source builds its model with iDynTree. The part of that library the source relies
  on is written out here: positions, rotation matrices (row by row), rigid transforms
  with their composition and inverse, and directions.
\<close>

datatype Position = Position real real real

datatype Rotation = Rotation real real real  real real real  real real real

datatype Transform = Transform Rotation Position

datatype Direction = Direction real real real

definition Rotation_Identity :: Rotation where
  "Rotation_Identity = Rotation 1 0 0  0 1 0  0 0 1"

definition Transform_Identity :: Transform where
  "Transform_Identity = Transform Rotation_Identity (Position 0 0 0)"

fun Rotation_inverse :: "Rotation \<Rightarrow> Rotation" where
  "Rotation_inverse (Rotation a b c  d e f  g h i) = Rotation a d g  b e h  c f i"

fun Rotation_compose :: "Rotation \<Rightarrow> Rotation \<Rightarrow> Rotation" where
  "Rotation_compose (Rotation a b c  d e f  g h i) (Rotation a' b' c'  d' e' f'  g' h' i') =
     Rotation (a * a' + b * d' + c * g') (a * b' + b * e' + c * h') (a * c' + b * f' + c * i')
              (d * a' + e * d' + f * g') (d * b' + e * e' + f * h') (d * c' + e * f' + f * i')
              (g * a' + h * d' + i * g') (g * b' + h * e' + i * h') (g * c' + h * f' + i * i')"

fun Rotation_apply :: "Rotation \<Rightarrow> Position \<Rightarrow> Position" where
  "Rotation_apply (Rotation a b c  d e f  g h i) (Position x y z) =
     Position (a * x + b * y + c * z) (d * x + e * y + f * z) (g * x + h * y + i * z)"

fun Position_add :: "Position \<Rightarrow> Position \<Rightarrow> Position" where
  "Position_add (Position x y z) (Position x' y' z') = Position (x + x') (y + y') (z + z')"

fun Position_neg :: "Position \<Rightarrow> Position" where
  "Position_neg (Position x y z) = Position (- x) (- y) (- z)"

text \<open>\<^verbatim>\<open>Transform::operator*(Position)\<close>, \<^verbatim>\<open>Transform::operator*(Transform)\<close>,
  \<^verbatim>\<open>Transform::inverse()\<close>, \<^verbatim>\<open>Transform::getPosition()\<close>.\<close>

fun Transform_apply :: "Transform \<Rightarrow> Position \<Rightarrow> Position" where
  "Transform_apply (Transform R p) q = Position_add (Rotation_apply R q) p"

fun Transform_compose :: "Transform \<Rightarrow> Transform \<Rightarrow> Transform" where
  "Transform_compose (Transform R p) (Transform R' p') =
     Transform (Rotation_compose R R') (Position_add (Rotation_apply R p') p)"

fun Transform_inverse :: "Transform \<Rightarrow> Transform" where
  "Transform_inverse (Transform R p) =
     Transform (Rotation_inverse R) (Position_neg (Rotation_apply (Rotation_inverse R) p))"

fun getPosition :: "Transform \<Rightarrow> Position" where
  "getPosition (Transform R p) = p"

fun setPosition :: "Position \<Rightarrow> Transform \<Rightarrow> Transform" where
  "setPosition p (Transform R q) = Transform R p"

fun setRotation :: "Rotation \<Rightarrow> Transform \<Rightarrow> Transform" where
  "setRotation R (Transform R' p) = Transform R p"

text \<open>A transform is rigid when its rotation matrix times its transpose is the identity.\<close>

fun rigid :: "Transform \<Rightarrow> bool" where
  "rigid (Transform R p) = (Rotation_compose R (Rotation_inverse R) = Rotation_Identity)"

text \<open>\<^verbatim>\<open>Direction::reverse()\<close>: the opposite direction.\<close>

fun Direction_reverse :: "Direction \<Rightarrow> Direction" where
  "Direction_reverse (Direction x y z) = Direction (- x) (- y) (- z)"

text \<open>
  A \<^verbatim>\<open>RotationalInertiaRaw\<close> is a 3 by 3 matrix read and written by row and column; a
  \<^verbatim>\<open>SpatialInertia\<close> is kept as the three arguments that
  \<^verbatim>\<open>fromRotationalInertiaWrtCenterOfMass\<close> receives.
\<close>

type_synonym RotationalInertiaRaw = "nat \<Rightarrow> nat \<Rightarrow> real"

definition RotationalInertiaRaw_Zero :: RotationalInertiaRaw where
  "RotationalInertiaRaw_Zero = (\<lambda>i j. 0)"

definition setVal :: "nat \<Rightarrow> nat \<Rightarrow> real \<Rightarrow> RotationalInertiaRaw \<Rightarrow> RotationalInertiaRaw" where
  "setVal i j v I = I(i := (I i)(j := v))"

record SpatialInertia =
  si_mass :: real
  si_com :: Position
  si_rotInertiaWrtCom :: RotationalInertiaRaw

subsection \<open>The assembled model\<close>

record ExternalMesh =
  mesh_filename :: string
  mesh_scale :: array3
  mesh_color :: "real list"

datatype SolidShape =
    Mesh ExternalMesh
  | Box real real real Transform
  | Cylinder real real Transform
  | Sphere real Transform

record RevoluteJoint =
  rev_parent_H_child :: Transform
  rev_axis_direction :: Direction
  rev_axis_origin :: Position
  rev_posLimitsEnabled :: bool
  rev_posLimits :: "real \<times> real"
  rev_damping :: real
  rev_staticFriction :: real

datatype IJoint = RevoluteJ RevoluteJoint | FixedJ Transform

record JointEntry =
  je_name :: string
  je_firstLink :: nat
  je_secondLink :: nat
  je_joint :: IJoint

record Frame =
  fr_name :: string
  fr_link :: nat
  fr_link_H_frame :: Transform

record Model =
  links :: "(string \<times> SpatialInertia) list"
  joints :: "JointEntry list"
  frames :: "Frame list"
  collisionSolidShapes :: "SolidShape list list"
  visualSolidShapes :: "SolidShape list list"

definition Model_empty :: Model where
  "Model_empty = \<lparr>links = [], joints = [], frames = [], collisionSolidShapes = [],
     visualSolidShapes = []\<rparr>"

text \<open>\<^verbatim>\<open>getLinkIndex\<close> and \<^verbatim>\<open>getJointIndex\<close>: \<open>None\<close> is the invalid index.\<close>

fun index_of :: "string \<Rightarrow> string list \<Rightarrow> nat option" where
  "index_of n [] = None"
| "index_of n (x # xs) = (if x = n then Some 0 else map_option Suc (index_of n xs))"

definition getLinkIndex :: "Model \<Rightarrow> string \<Rightarrow> nat option" where
  "getLinkIndex m n = index_of n (map fst (links m))"

definition getJointIndex :: "Model \<Rightarrow> string \<Rightarrow> nat option" where
  "getJointIndex m n = index_of n (map je_name (joints m))"

definition isFrameNameUsed :: "Model \<Rightarrow> string \<Rightarrow> bool" where
  "isFrameNameUsed m n = (n \<in> set (map fst (links m)) \<or> n \<in> set (map fr_name (frames m)))"

text \<open>\<^verbatim>\<open>addLink\<close>: a name already in use is refused and the model is unchanged; the
  source ignores the returned index.\<close>

definition addLink :: "string \<Rightarrow> SpatialInertia \<Rightarrow> Model \<Rightarrow> Model" where
  "addLink n l m =
     (if isFrameNameUsed m n then m
      else m\<lparr>links := links m @ [(n, l)],
             collisionSolidShapes := collisionSolidShapes m @ [[]],
             visualSolidShapes := visualSolidShapes m @ [[]]\<rparr>)"

text \<open>\<^verbatim>\<open>addJoint(link1, link2, jointName, joint)\<close>: \<open>None\<close> is
  \<^verbatim>\<open>JOINT_INVALID_INDEX\<close>, returned when a link is unknown, when both are the same link
  or when the joint name is in use.\<close>

definition addJoint :: "string \<Rightarrow> string \<Rightarrow> string \<Rightarrow> IJoint \<Rightarrow> Model \<Rightarrow> (nat \<times> Model) option" where
  "addJoint link1 link2 jointName joint m =
     (case (getLinkIndex m link1, getLinkIndex m link2) of
        (Some i1, Some i2) \<Rightarrow>
          if i1 = i2 \<or> jointName \<in> set (map je_name (joints m)) then None
          else Some (length (joints m),
                 m\<lparr>joints := joints m @
                     [\<lparr>je_name = jointName, je_firstLink = i1, je_secondLink = i2, je_joint = joint\<rparr>]\<rparr>)
      | _ \<Rightarrow> None)"

text \<open>\<^verbatim>\<open>addAdditionalFrameToLink\<close>: false when the link is unknown or the frame name is
  in use.\<close>

definition addAdditionalFrameToLink :: "string \<Rightarrow> string \<Rightarrow> Transform \<Rightarrow> Model \<Rightarrow> bool \<times> Model" where
  "addAdditionalFrameToLink linkName frameName link_H_frame m =
     (case getLinkIndex m linkName of
        None \<Rightarrow> (False, m)
      | Some i \<Rightarrow>
          if isFrameNameUsed m frameName then (False, m)
          else (True, m\<lparr>frames := frames m @
                  [\<lparr>fr_name = frameName, fr_link = i, fr_link_H_frame = link_H_frame\<rparr>]\<rparr>))"

text \<open>The rest transform of a joint, and the direction of its axis when it has one.\<close>

fun IJoint_transform :: "IJoint \<Rightarrow> Transform" where
  "IJoint_transform (RevoluteJ r) = rev_parent_H_child r"
| "IJoint_transform (FixedJ H) = H"

fun IJoint_axis :: "IJoint \<Rightarrow> Direction option" where
  "IJoint_axis (RevoluteJ r) = Some (rev_axis_direction r)"
| "IJoint_axis (FixedJ H) = None"

record ModelExporterOptions =
  robotExportedName :: string
  baseLink :: string
  xmlBlobs :: "string list"

subsection \<open>The configuration document\<close>

text \<open>
  The YAML document is represented by what the accessors used in the source return: a
  key that \<^verbatim>\<open>IsDefined()\<close> is \<open>Some\<close> of its converted value, a sequence is the list
  of its entries, and \<^verbatim>\<open>Scalar()\<close> of a node that is not defined is the empty string.
\<close>

datatype ShapeType = ShapeBox | ShapeCylinder | ShapeSphere | ShapeNone

record AssignedInertiaCfg =
  ai_linkName :: string
  ai_xx :: real
  ai_yy :: real
  ai_zz :: real

record CollisionGeometryCfg =
  cg_linkName :: string
  cg_shape :: ShapeType
  cg_size :: array3
  cg_radius :: real
  cg_lenght :: real
  cg_origin :: array6

record ExportedFrameCfg =
  ef_frameName :: string
  ef_frameReferenceLink :: string
  ef_exportedFrameName :: string
  ef_additionalTransformation :: "array6 option"

record Config =
  cfg_scale :: "array3 option"
  cfg_originXYZ :: "array3 option"
  cfg_originRPY :: "array3 option"
  cfg_exportAllUseradded :: "bool option"
  cfg_rename :: "string \<Rightarrow> string option"
  cfg_linkFrames :: "(string \<times> string) list"
  cfg_assignedMasses :: "string \<Rightarrow> real option"
  cfg_assignedInertias :: "AssignedInertiaCfg list option"
  cfg_assignedCollisionGeometry :: "CollisionGeometryCfg list option"
  cfg_exportedFrames :: "ExportedFrameCfg list option"
  cfg_reverseRotationAxis :: string
  cfg_robotName :: string
  cfg_root :: "string option"
  cfg_XMLBlobs :: "string list option"
  cfg_stringToRemoveFromMeshFileName :: "string option"
  cfg_forcelowercase :: "bool option"
  cfg_filenameformat :: "string option"
  cfg_assignedColors :: "string \<Rightarrow> real list option"

datatype yaml_load = BadFile | ParserException string | Loaded Config

subsection \<open>What the CAD host reports\<close>

text \<open>
  A component handle is the data the host returns for it: its full name, the names of its
  axes and of its coordinate systems in the order \<^verbatim>\<open>ListItems\<close> lists them, and its
  mass properties.
\<close>

record Component =
  full_name :: string
  axes :: "string list"
  coord_sys :: "string list"
  mass :: real
  gravity_center :: array3
  cg_inertia_tensor :: "nat \<Rightarrow> nat \<Rightarrow> real"

record Feature =
  is_component :: bool
  feat_model :: Component

subsection \<open>Tables of the converter\<close>

text \<open>
  The structures of \<^verbatim>\<open>Creo2Urdf.h\<close> and \<^verbatim>\<open>Utils.h\<close>, with the fields the source reads and
  writes. The source only ever stores the kinds Revolute and Fixed; \<open>OtherJointType\<close>
  stands for the other values of the enumeration, for which the joint loop does nothing.
  A string member of a fresh structure is empty.
\<close>

datatype JointType = Revolute | Fixed | OtherJointType

record JointInfo =
  name :: string
  type :: JointType
  parent_link_name :: string
  child_link_name :: string

record LinkInfo =
  li_name :: string
  modelhdl :: Component
  root_H_link :: Transform
  link_frame_name :: string

record ExportedFrameInfo =
  frameReferenceLink :: string
  exportedFrameName :: string
  linkFrame_H_additionalFrame :: Transform
  additionalTransformation :: Transform

record CollisionGeometryInfo =
  shape :: ShapeType
  size_cg :: array3
  radius :: real
  length_cg :: real
  link_H_geometry :: Transform

record SensorInfo =
  sensor_linkName :: string
  sensor_exportedFrameName :: string
  sensor_exportFrameInURDF :: bool
  sensor_transform :: Transform

record FTSensorInfo =
  ft_sensorName :: string
  ft_exportedFrameName :: string
  ft_exportFrameInURDF :: bool
  parent_link_H_sensor :: Transform

record Sensorizer =
  sensors :: "SensorInfo list"
  ft_sensors :: "(string \<times> FTSensorInfo) list"

subsection \<open>The converter's members\<close>

text \<open>
  Besides the members of the class, the record holds what a run leaves outside the
  process: the lines written to the message window, the mesh files exported, and the
  model and options handed to the model exporter.
\<close>

record Creo2Urdf =
  idyn_model :: Model
  config :: Config
  joint_info_map :: "(string \<times> JointInfo) list"
  link_info_map :: "(string \<times> LinkInfo) list"
  exported_frame_info_map :: "(string \<times> ExportedFrameInfo) list"
  assigned_inertias_map :: "(string \<times> array3) list"
  assigned_collision_geometry_map :: "(string \<times> CollisionGeometryInfo) list"
  scale :: array3
  originXYZ :: array3
  originRPY :: array3
  exportAllUseradded :: bool
  messages :: "message list"
  stl_files :: "string list"
  exported :: "(Model \<times> ModelExporterOptions) option"

text \<open>
  The functions of \<^verbatim>\<open>Utils.h\<close>, of the sensor subsystem and of the libraries that the
  source calls and that are not part of this file are parameters of the model; among them
  \<^verbatim>\<open>Rotation::RPY\<close>, the rotation for a roll, a pitch and a yaw.
\<close>

record Host =
  getTransformFromRootToChild :: "Component \<Rightarrow> string \<Rightarrow> array3 \<Rightarrow> bool \<times> Transform"
  getTransformFromPart :: "Component \<Rightarrow> string \<Rightarrow> array3 \<Rightarrow> bool \<times> Transform"
  getRotationAxisFromPart :: "Component \<Rightarrow> string \<Rightarrow> Transform \<Rightarrow> bool \<times> Direction"
  isPhysicallyConsistent :: "SpatialInertia \<Rightarrow> bool"
  Rotation_RPY :: "real \<Rightarrow> real \<Rightarrow> real \<Rightarrow> Rotation"
  deg2rad :: real
  to_string :: "real \<Rightarrow> string"
  readFTSensorsFromConfig :: "Config \<Rightarrow> Sensorizer \<Rightarrow> Sensorizer"
  readSensorsFromConfig :: "Config \<Rightarrow> Sensorizer \<Rightarrow> Sensorizer"
  assignTransformToSensors :: "(string \<times> ExportedFrameInfo) list \<Rightarrow> Sensorizer \<Rightarrow> Sensorizer"
  assignTransformToFTSensor ::
    "(string \<times> LinkInfo) list \<Rightarrow> (string \<times> JointInfo) list \<Rightarrow> array3 \<Rightarrow> Sensorizer \<Rightarrow> Sensorizer"
  buildFTXMLBlobs :: "Sensorizer \<Rightarrow> string list"
  buildSensorsXMLBlobs :: "Sensorizer \<Rightarrow> string list"
  exporter_isValid :: "Model \<Rightarrow> ModelExporterOptions \<Rightarrow> bool"
  exportModelToFile :: "Model \<Rightarrow> ModelExporterOptions \<Rightarrow> bool"

text \<open>How a function leaves: it runs to its end, it returns early, or an exception
  leaves it.\<close>

datatype exn = out_of_range | bad_conversion | invalid_index

datatype flow = Normal | Returned | Thrown exn

text \<open>The five tables of the converter.\<close>

definition tables ::
  "Creo2Urdf \<Rightarrow> (string \<times> JointInfo) list \<times> (string \<times> LinkInfo) list \<times>
     (string \<times> ExportedFrameInfo) list \<times> (string \<times> array3) list \<times>
     (string \<times> CollisionGeometryInfo) list" where
  "tables st = (joint_info_map st, link_info_map st, exported_frame_info_map st,
     assigned_inertias_map st, assigned_collision_geometry_map st)"

definition printToMessageWindow :: "string \<Rightarrow> c2uLogLevel \<Rightarrow> Creo2Urdf \<Rightarrow> Creo2Urdf" where
  "printToMessageWindow msg lvl st = st\<lparr>messages := messages st @ [(lvl, msg)]\<rparr>"

subsection \<open>loadYamlConfig\<close>

definition loadYamlConfig :: "string \<Rightarrow> yaml_load \<Rightarrow> Creo2Urdf \<Rightarrow> bool \<times> Creo2Urdf" where
  "loadYamlConfig filename file st =
     (case file of
        BadFile \<Rightarrow>
          (False, printToMessageWindow
             (''Configuration file '' @ filename @ '' does not exist!'') WARN st)
      | ParserException msg \<Rightarrow> (False, printToMessageWindow msg WARN st)
      | Loaded c \<Rightarrow>
          (True, printToMessageWindow
             (''Configuration file '' @ filename @ '' was loaded successfully'') INFO
             (st\<lparr>config := c\<rparr>)))"

subsection \<open>getRenameElementFromConfig\<close>

definition getRenameElementFromConfig :: "string \<Rightarrow> Creo2Urdf \<Rightarrow> string \<times> Creo2Urdf" where
  "getRenameElementFromConfig elem_name st =
     (case cfg_rename (config st) elem_name of
        Some new_name \<Rightarrow> (new_name, st)
      | None \<Rightarrow>
          (elem_name,
           printToMessageWindow
             (''Element '' @ elem_name @ '' is not present in the configuration file!'') WARN st))"

subsection \<open>Reading the overrides from the configuration\<close>

fun readAssignedInertias_loop ::
  "AssignedInertiaCfg list \<Rightarrow> (string \<times> array3) list \<Rightarrow> (string \<times> array3) list" where
  "readAssignedInertias_loop [] m = m"
| "readAssignedInertias_loop (ai # rest) m =
     readAssignedInertias_loop rest
       (map_insert (ai_linkName ai) (Array3 (ai_xx ai) (ai_yy ai) (ai_zz ai)) m)"

definition readAssignedInertiasFromConfig :: "Creo2Urdf \<Rightarrow> Creo2Urdf" where
  "readAssignedInertiasFromConfig st =
     (case cfg_assignedInertias (config st) of
        None \<Rightarrow> st
      | Some ais \<Rightarrow>
          st\<lparr>assigned_inertias_map := readAssignedInertias_loop ais (assigned_inertias_map st)\<rparr>)"

text \<open>The fields of a \<^verbatim>\<open>CollisionGeometryInfo\<close> that the shape does not set keep the
  value of a fresh object, \<open>cgi0\<close>.\<close>

definition cgi0 :: CollisionGeometryInfo where
  "cgi0 = \<lparr>shape = ShapeNone, size_cg = Array3 0 0 0, radius = 0, length_cg = 0,
            link_H_geometry = Transform_Identity\<rparr>"

fun origin_transform :: "Host \<Rightarrow> array6 \<Rightarrow> Transform \<Rightarrow> Transform" where
  "origin_transform h (Array6 x y z r p w) H =
     setRotation (Rotation_RPY h r p w) (setPosition (Position x y z) H)"

definition collisionGeometryInfo :: "Host \<Rightarrow> CollisionGeometryCfg \<Rightarrow> CollisionGeometryInfo" where
  "collisionGeometryInfo h cg =
     (let cgi = cgi0\<lparr>shape := cg_shape cg\<rparr>;
          cgi = (case shape cgi of
                   ShapeBox \<Rightarrow> cgi\<lparr>size_cg := cg_size cg\<rparr>
                 | ShapeCylinder \<Rightarrow> cgi\<lparr>radius := cg_radius cg, length_cg := cg_lenght cg\<rparr>
                 | ShapeSphere \<Rightarrow> cgi\<lparr>radius := cg_radius cg\<rparr>
                 | ShapeNone \<Rightarrow> cgi)
      in cgi\<lparr>link_H_geometry := origin_transform h (cg_origin cg) (link_H_geometry cgi)\<rparr>)"

fun readAssignedCollisionGeometry_loop ::
  "Host \<Rightarrow> CollisionGeometryCfg list \<Rightarrow> (string \<times> CollisionGeometryInfo) list
     \<Rightarrow> (string \<times> CollisionGeometryInfo) list" where
  "readAssignedCollisionGeometry_loop h [] m = m"
| "readAssignedCollisionGeometry_loop h (cg # rest) m =
     readAssignedCollisionGeometry_loop h rest
       (map_insert (cg_linkName cg) (collisionGeometryInfo h cg) m)"

definition readAssignedCollisionGeometryFromConfig :: "Host \<Rightarrow> Creo2Urdf \<Rightarrow> Creo2Urdf" where
  "readAssignedCollisionGeometryFromConfig h st =
     (case cfg_assignedCollisionGeometry (config st) of
        None \<Rightarrow> st
      | Some cgs \<Rightarrow>
          st\<lparr>assigned_collision_geometry_map :=
               readAssignedCollisionGeometry_loop h cgs (assigned_collision_geometry_map st)\<rparr>)"

definition ef_info0 :: ExportedFrameInfo where
  "ef_info0 = \<lparr>frameReferenceLink = [], exportedFrameName = [],
     linkFrame_H_additionalFrame = Transform_Identity,
     additionalTransformation = Transform_Identity\<rparr>"

definition exportedFrameInfo :: "Host \<Rightarrow> ExportedFrameCfg \<Rightarrow> ExportedFrameInfo" where
  "exportedFrameInfo h ef =
     (let ef_info = ef_info0\<lparr>frameReferenceLink := ef_frameReferenceLink ef,
                              exportedFrameName := ef_exportedFrameName ef\<rparr>
      in case ef_additionalTransformation ef of
           None \<Rightarrow> ef_info
         | Some xyzrpy \<Rightarrow>
             ef_info\<lparr>additionalTransformation := origin_transform h xyzrpy Transform_Identity\<rparr>)"

fun readExportedFrames_loop ::
  "Host \<Rightarrow> ExportedFrameCfg list \<Rightarrow> (string \<times> ExportedFrameInfo) list
     \<Rightarrow> (string \<times> ExportedFrameInfo) list" where
  "readExportedFrames_loop h [] m = m"
| "readExportedFrames_loop h (ef # rest) m =
     readExportedFrames_loop h rest (map_insert (ef_frameName ef) (exportedFrameInfo h ef) m)"

definition readExportedFramesFromConfig :: "Host \<Rightarrow> Creo2Urdf \<Rightarrow> Creo2Urdf" where
  "readExportedFramesFromConfig h st =
     (case cfg_exportedFrames (config st) of
        None \<Rightarrow> st
      | Some efs \<Rightarrow>
          if exportAllUseradded st then st
          else st\<lparr>exported_frame_info_map :=
                     readExportedFrames_loop h efs (exported_frame_info_map st)\<rparr>)"

subsection \<open>computeSpatialInertiafromCreo\<close>

text \<open>The body of the two nested loops, for row \<open>i_row\<close> and column \<open>j_col\<close>:
  \<^verbatim>\<open>assigned_inertia_flag\<close> is the \<open>Some\<close> case of the lookup, where \<^verbatim>\<open>at(link_name)\<close>
  is the value found.\<close>

definition inertia_entry ::
  "Creo2Urdf \<Rightarrow> Component \<Rightarrow> string \<Rightarrow> nat \<Rightarrow> nat \<Rightarrow> RotationalInertiaRaw \<Rightarrow> RotationalInertiaRaw" where
  "inertia_entry st mass_prop link_name i_row j_col I =
     (case map_of (assigned_inertias_map st) link_name of
        Some assigned \<Rightarrow>
          if i_row = j_col then setVal i_row j_col (get3 assigned i_row) I
          else setVal i_row j_col
                 (cg_inertia_tensor mass_prop i_row j_col * get3 (scale st) i_row * get3 (scale st) j_col) I
      | None \<Rightarrow>
          setVal i_row j_col
            (cg_inertia_tensor mass_prop i_row j_col * get3 (scale st) i_row * get3 (scale st) j_col) I)"

definition inertia_tensor_loop :: "Creo2Urdf \<Rightarrow> Component \<Rightarrow> string \<Rightarrow> RotationalInertiaRaw" where
  "inertia_tensor_loop st mass_prop link_name =
     fold (\<lambda>i_row. fold (\<lambda>j_col. inertia_entry st mass_prop link_name i_row j_col) [0..<3])
       [0..<3] RotationalInertiaRaw_Zero"

definition computeSpatialInertiafromCreo ::
  "Creo2Urdf \<Rightarrow> Component \<Rightarrow> Transform \<Rightarrow> string \<Rightarrow> SpatialInertia" where
  "computeSpatialInertiafromCreo st mass_prop H link_name =
     (let com = gravity_center mass_prop;
          idyn_inertia_tensor = inertia_tensor_loop st mass_prop link_name;
          com_child = Position (get3 com 0 * get3 (scale st) 0) (get3 com 1 * get3 (scale st) 1)
                        (get3 com 2 * get3 (scale st) 2);
          com_child = Transform_apply (Transform_inverse H) com_child;
          mass = (case cfg_assignedMasses (config st) link_name of
                    Some m \<Rightarrow> m
                  | None \<Rightarrow> mass mass_prop)
      in \<lparr>si_mass = mass, si_com = com_child, si_rotInertiaWrtCom = idyn_inertia_tensor\<rparr>)"

subsection \<open>populateJointInfoMap\<close>

fun axis_loop :: "string \<Rightarrow> string list \<Rightarrow> (string \<times> JointInfo) list \<Rightarrow> (string \<times> JointInfo) list" where
  "axis_loop link_name [] m = m"
| "axis_loop link_name (axis_name_str # rest) m =
     axis_loop link_name rest
       (let joint_info = \<lparr>name = axis_name_str, type = Revolute, parent_link_name = [],
                           child_link_name = []\<rparr>
        in if map_of m axis_name_str = None
           then map_insert axis_name_str (joint_info\<lparr>parent_link_name := link_name\<rparr>) m
           else map_modify axis_name_str (\<lambda>existing_joint_info.
                  existing_joint_info\<lparr>child_link_name := link_name\<rparr>) m)"

fun csys_loop :: "string \<Rightarrow> string list \<Rightarrow> (string \<times> JointInfo) list \<Rightarrow> (string \<times> JointInfo) list" where
  "csys_loop link_name [] m = m"
| "csys_loop link_name (csys_name # rest) m =
     csys_loop link_name rest
       (if str_find csys_name ''SCSYS'' = None then m
        else
          let joint_info = \<lparr>name = csys_name, type = Fixed, parent_link_name = [],
                             child_link_name = []\<rparr>
          in if map_of m csys_name = None
             then map_insert csys_name (joint_info\<lparr>parent_link_name := link_name\<rparr>) m
             else map_modify csys_name (\<lambda>existing_joint_info.
                    existing_joint_info\<lparr>child_link_name := link_name\<rparr>) m)"

definition populateJointInfoMap :: "Component \<Rightarrow> Creo2Urdf \<Rightarrow> Creo2Urdf" where
  "populateJointInfoMap hdl st =
     (let axes_list = axes hdl;
          link_name = full_name hdl;
          st = (if length axes_list = 0
                then printToMessageWindow (''There is no AXIS in the part '' @ link_name) WARN st
                else st);
          st = st\<lparr>joint_info_map := axis_loop link_name axes_list (joint_info_map st)\<rparr>;
          csys_list = coord_sys hdl;
          st = (if length csys_list = 0
                then printToMessageWindow (''There is no CSYS in the part '' @ link_name) WARN st
                else st)
      in st\<lparr>joint_info_map := csys_loop link_name csys_list (joint_info_map st)\<rparr>)"

text \<open>
  The keys under which a part registers joint candidates, in the order of the two passes:
  its axes, then its coordinate systems whose name holds the marker \<^verbatim>\<open>SCSYS\<close>.
\<close>

definition marked :: "string list \<Rightarrow> string list" where
  "marked cs = filter (\<lambda>c. str_find c ''SCSYS'' \<noteq> None) cs"

definition joint_keys :: "Component \<Rightarrow> string list" where
  "joint_keys c = axes c @ marked (coord_sys c)"

subsection \<open>Loops that can be left early\<close>

fun for_each :: "('a \<Rightarrow> Creo2Urdf \<Rightarrow> flow \<times> Creo2Urdf) \<Rightarrow> 'a list \<Rightarrow> Creo2Urdf \<Rightarrow> flow \<times> Creo2Urdf" where
  "for_each body [] st = (Normal, st)"
| "for_each body (x # xs) st =
     (case body x st of
        (Normal, st') \<Rightarrow> for_each body xs st'
      | (Returned, st') \<Rightarrow> (Returned, st')
      | (Thrown e, st') \<Rightarrow> (Thrown e, st'))"

subsection \<open>populateExportedFrameInfoMap\<close>

definition exported_frame_body :: "Host \<Rightarrow> Component \<Rightarrow> string \<Rightarrow> Creo2Urdf \<Rightarrow> flow \<times> Creo2Urdf" where
  "exported_frame_body h hdl csys_name st =
     (let link_name = full_name hdl in
      if exportAllUseradded st \<and>
         (str_find csys_name ''SCSYS'' = None \<or> map_of (exported_frame_info_map st) csys_name \<noteq> None)
      then (Normal, st)
      else
        let st =
          (if exportAllUseradded st then
             let (ref, st) = getRenameElementFromConfig link_name st;
                 ef_info = ef_info0\<lparr>frameReferenceLink := ref,
                                      exportedFrameName := csys_name @ ''_USERADDED''\<rparr>
             in st\<lparr>exported_frame_info_map :=
                      map_insert csys_name ef_info (exported_frame_info_map st)\<rparr>
           else st)
        in if map_of (exported_frame_info_map st) csys_name \<noteq> None then
             (case map_of (link_info_map st) link_name of
                None \<Rightarrow> (Thrown out_of_range, st)
              | Some link_info \<Rightarrow>
                  let csys_H_additionalFrame = snd (getTransformFromPart h hdl csys_name (scale st));
                      csys_H_linkFrame =
                        snd (getTransformFromPart h hdl (link_frame_name link_info) (scale st));
                      linkFrame_H_additionalFrame' =
                        Transform_compose (Transform_inverse csys_H_linkFrame) csys_H_additionalFrame
                  in (Normal,
                      st\<lparr>exported_frame_info_map :=
                           map_modify csys_name (\<lambda>exported_frame_info.
                             exported_frame_info\<lparr>linkFrame_H_additionalFrame :=
                               linkFrame_H_additionalFrame'\<rparr>) (exported_frame_info_map st)\<rparr>))
           else (Normal, st))"

definition populateExportedFrameInfoMap :: "Host \<Rightarrow> Component \<Rightarrow> Creo2Urdf \<Rightarrow> flow \<times> Creo2Urdf" where
  "populateExportedFrameInfoMap h hdl st =
     (let link_name = full_name hdl;
          csys_list = coord_sys hdl;
          st = (if length csys_list = 0
                then printToMessageWindow (''There is no CSYS in the part '' @ link_name) WARN st
                else st)
      in for_each (exported_frame_body h hdl) csys_list st)"

text \<open>
  The entry that the blanket export registers for the coordinate system \<open>csys_name\<close> of a
  part whose link-table entry is \<open>link_info\<close>.
\<close>

definition useradded_info :: "Host \<Rightarrow> Component \<Rightarrow> LinkInfo \<Rightarrow> Creo2Urdf \<Rightarrow> string \<Rightarrow> ExportedFrameInfo" where
  "useradded_info h hdl link_info st csys_name =
     \<lparr>frameReferenceLink = fst (getRenameElementFromConfig (full_name hdl) st),
      exportedFrameName = csys_name @ ''_USERADDED'',
      linkFrame_H_additionalFrame =
        Transform_compose
          (Transform_inverse (snd (getTransformFromPart h hdl (link_frame_name link_info) (scale st))))
          (snd (getTransformFromPart h hdl csys_name (scale st))),
      additionalTransformation = Transform_Identity\<rparr>"

subsection \<open>addMeshAndExport\<close>

text \<open>\<^verbatim>\<open>std::tolower\<close> on a byte, in the C locale.\<close>

definition char_tolower :: "char \<Rightarrow> char" where
  "char_tolower c =
     (if CHR ''A'' \<le> c \<and> c \<le> CHR ''Z'' then char_of (of_char c + (32 :: nat)) else c)"

text \<open>\<^verbatim>\<open>s.erase(pos, len)\<close> for a position inside \<open>s\<close>.\<close>

definition str_erase :: "string \<Rightarrow> nat \<Rightarrow> nat \<Rightarrow> string" where
  "str_erase s pos len = take pos s @ drop (pos + len) s"

text \<open>
  The last lines of the function: where the mesh goes. The shape tables are indexed by
  the link's index; an invalid index, for which the source's indexing has no defined
  behaviour, stops the model with \<open>invalid_index\<close>.
\<close>

definition push_back_at :: "nat \<Rightarrow> SolidShape \<Rightarrow> SolidShape list list \<Rightarrow> SolidShape list list" where
  "push_back_at i s tbl = tbl[i := tbl ! i @ [s]]"

definition push_collision :: "string \<Rightarrow> SolidShape \<Rightarrow> Model \<Rightarrow> Model option" where
  "push_collision link s m =
     (case getLinkIndex m link of
        None \<Rightarrow> None
      | Some i \<Rightarrow>
          if i < length (collisionSolidShapes m)
          then Some (m\<lparr>collisionSolidShapes := push_back_at i s (collisionSolidShapes m)\<rparr>)
          else None)"

definition push_visual :: "string \<Rightarrow> SolidShape \<Rightarrow> Model \<Rightarrow> Model option" where
  "push_visual link s m =
     (case getLinkIndex m link of
        None \<Rightarrow> None
      | Some i \<Rightarrow>
          if i < length (visualSolidShapes m)
          then Some (m\<lparr>visualSolidShapes := push_back_at i s (visualSolidShapes m)\<rparr>)
          else None)"

definition attach_shapes :: "string \<Rightarrow> ExternalMesh \<Rightarrow> Creo2Urdf \<Rightarrow> Model option" where
  "attach_shapes renamed_link_child_name visualMesh st =
     (let m = idyn_model st;
          collided =
            (case map_of (assigned_collision_geometry_map st) renamed_link_child_name of
               Some geometry_info \<Rightarrow>
                 (case shape geometry_info of
                    ShapeBox \<Rightarrow>
                      push_collision renamed_link_child_name
                        (Box (get3 (size_cg geometry_info) 0) (get3 (size_cg geometry_info) 1)
                           (get3 (size_cg geometry_info) 2) (link_H_geometry geometry_info)) m
                  | ShapeCylinder \<Rightarrow>
                      push_collision renamed_link_child_name
                        (Cylinder (length_cg geometry_info) (radius geometry_info)
                           (link_H_geometry geometry_info)) m
                  | ShapeSphere \<Rightarrow>
                      push_collision renamed_link_child_name
                        (Sphere (radius geometry_info) (link_H_geometry geometry_info)) m
                  | ShapeNone \<Rightarrow> Some m)
             | None \<Rightarrow> push_collision renamed_link_child_name (Mesh visualMesh) m)
      in case collided of
           None \<Rightarrow> None
         | Some m \<Rightarrow> push_visual renamed_link_child_name (Mesh visualMesh) m)"

text \<open>
  The steps of the function before that, each a definition of its own: the renamed link
  name (lines 530 to 535), the name of the mesh file with the configured substring erased
  and the letters lowered (lines 537 to 548, where \<^verbatim>\<open>erase\<close> throws when the substring is
  not found and \<^verbatim>\<open>as<bool>\<close> throws when \<open>forcelowercase\<close> is not defined), the colour
  (lines 567 to 576) and the file name written into the mesh (lines 585 to 592, where
  \<^verbatim>\<open>replace\<close> throws when the format has no \<^verbatim>\<open>%s\<close>). The colour is the list of the
  entries the source writes: the configured ones, or the grey default.
\<close>

definition renamed_link :: "Config \<Rightarrow> Component \<Rightarrow> string" where
  "renamed_link cfg component_handle =
     (case cfg_rename cfg (full_name component_handle) of
        Some n \<Rightarrow> n
      | None \<Rightarrow> full_name component_handle)"

definition mesh_link_name :: "Config \<Rightarrow> string \<Rightarrow> exn + string" where
  "mesh_link_name cfg link_child_name =
     (case (case cfg_stringToRemoveFromMeshFileName cfg of
              None \<Rightarrow> Some link_child_name
            | Some r \<Rightarrow>
                (case str_find link_child_name r of
                   None \<Rightarrow> None
                 | Some pos \<Rightarrow> Some (str_erase link_child_name pos (length r)))) of
        None \<Rightarrow> Inl out_of_range
      | Some link_child_name \<Rightarrow>
          (case cfg_forcelowercase cfg of
             None \<Rightarrow> Inl bad_conversion
           | Some lower \<Rightarrow>
               Inr (if lower then map char_tolower link_child_name else link_child_name)))"

definition mesh_color_of :: "Config \<Rightarrow> string \<Rightarrow> real list" where
  "mesh_color_of cfg renamed_link_child_name =
     (case cfg_assignedColors cfg renamed_link_child_name of
        Some cs \<Rightarrow> cs
      | None \<Rightarrow> [0.5, 0.5, 0.5, 1])"

definition mesh_file_format :: "Config \<Rightarrow> string \<Rightarrow> exn + string" where
  "mesh_file_format cfg link_child_name =
     (let file_format = (case cfg_filenameformat cfg of Some f \<Rightarrow> f | None \<Rightarrow> ''%s'')
      in case str_find file_format ''%s'' of
           None \<Rightarrow> Inl out_of_range
         | Some pos \<Rightarrow> Inr (take pos file_format @ link_child_name @ ''.stl''))"

definition addMeshAndExport :: "Component \<Rightarrow> string \<Rightarrow> Creo2Urdf \<Rightarrow> flow \<times> Creo2Urdf" where
  "addMeshAndExport component_handle stl_transform st =
     (let renamed_link_child_name = renamed_link (config st) component_handle
      in case mesh_link_name (config st) (full_name component_handle) of
           Inl e \<Rightarrow> (Thrown e, st)
         | Inr link_child_name \<Rightarrow>
             let stl_file_name = link_child_name @ ''.stl'';
                 st = st\<lparr>stl_files := stl_files st @ [stl_file_name]\<rparr>
             in (case mesh_file_format (config st) link_child_name of
                   Inl e \<Rightarrow> (Thrown e, st)
                 | Inr file_format \<Rightarrow>
                     let visualMesh =
                           \<lparr>mesh_filename = file_format, mesh_scale = scale st,
                            mesh_color = mesh_color_of (config st) renamed_link_child_name\<rparr>
                     in (case attach_shapes renamed_link_child_name visualMesh st of
                           None \<Rightarrow> (Thrown invalid_index, st)
                         | Some m \<Rightarrow> (Normal, st\<lparr>idyn_model := m\<rparr>))))"

subsection \<open>exportModelToUrdf\<close>

definition exportModelToUrdf :: "Host \<Rightarrow> Model \<Rightarrow> ModelExporterOptions \<Rightarrow> Creo2Urdf \<Rightarrow> bool \<times> Creo2Urdf" where
  "exportModelToUrdf h mdl options st =
     (if \<not> exporter_isValid h mdl options
      then (False, printToMessageWindow ''Model is not valid!'' WARN st)
      else if \<not> exportModelToFile h mdl options
      then (False, printToMessageWindow
              ''Error exporting the urdf. See iDynTreeErrors.txt for details'' WARN st)
      else (True, printToMessageWindow ''Urdf created successfully!'' INFO
              (st\<lparr>exported := Some (mdl, options)\<rparr>)))"

subsection \<open>OnCommand\<close>

text \<open>
  What one invocation receives from the session: the configuration file the user picks
  and what loading it gives, the table of joint limits (\<^verbatim>\<open>GetCell\<close> by column and row
  label, \<open>None\<close> where it throws), and the features of the current assembly. The
  redirection of the library's error stream and the text dump of the model, which the
  command also writes, have no part in what follows and are left out.
\<close>

record Session =
  yaml_path :: string
  yaml_file :: yaml_load
  joints_csv_table :: "string \<Rightarrow> string \<Rightarrow> real option"
  asm_component_list :: "Feature list"

text \<open>Lines 52 to 79: the tables are cleared and the options and overrides are read.\<close>

definition clear_maps :: "Creo2Urdf \<Rightarrow> Creo2Urdf" where
  "clear_maps st =
     (if length (joint_info_map st) > 0
      then st\<lparr>joint_info_map := [], link_info_map := [], exported_frame_info_map := [],
              assigned_inertias_map := [], assigned_collision_geometry_map := []\<rparr>
      else st)"

definition read_options :: "Creo2Urdf \<Rightarrow> Creo2Urdf" where
  "read_options st =
     (let st = (case cfg_scale (config st) of Some v \<Rightarrow> st\<lparr>scale := v\<rparr> | None \<Rightarrow> st);
          st = (case cfg_originXYZ (config st) of Some v \<Rightarrow> st\<lparr>originXYZ := v\<rparr> | None \<Rightarrow> st);
          st = (case cfg_originRPY (config st) of Some v \<Rightarrow> st\<lparr>originRPY := v\<rparr> | None \<Rightarrow> st)
      in (case cfg_exportAllUseradded (config st) of
            Some v \<Rightarrow> st\<lparr>exportAllUseradded := v\<rparr>
          | None \<Rightarrow> st))"

definition prepare_run :: "Host \<Rightarrow> Creo2Urdf \<Rightarrow> Creo2Urdf" where
  "prepare_run h st =
     readAssignedCollisionGeometryFromConfig h
       (readAssignedInertiasFromConfig
          (readExportedFramesFromConfig h (read_options (clear_maps st))))"

text \<open>Lines 87 to 142: one step of the traversal of the model tree.\<close>

definition link_frame_of :: "Config \<Rightarrow> string \<Rightarrow> string" where
  "link_frame_of cfg urdf_link_name =
     fold (\<lambda>lf link_frame_name. if fst lf \<noteq> urdf_link_name then link_frame_name else snd lf)
       (cfg_linkFrames cfg) []"

definition component_body :: "Host \<Rightarrow> Feature \<Rightarrow> Creo2Urdf \<Rightarrow> flow \<times> Creo2Urdf" where
  "component_body h feat st =
     (if \<not> is_component feat then (Normal, st)
      else
        let component_handle = feat_model feat;
            link_name = full_name component_handle;
            (urdf_link_name, st) = getRenameElementFromConfig link_name st;
            link_frame_name' = link_frame_of (config st) urdf_link_name;
            (ret, root_H_link') =
              getTransformFromRootToChild h component_handle link_frame_name' (scale st)
        in if \<not> ret then (Returned, st)
           else
             let link = computeSpatialInertiafromCreo st component_handle root_H_link' urdf_link_name;
                 st = (if \<not> isPhysicallyConsistent h link
                       then printToMessageWindow (link_name @ '' is NOT physically consistent!'') WARN st
                       else st);
                 l_info = \<lparr>li_name = urdf_link_name, modelhdl = component_handle,
                            root_H_link = root_H_link', link_frame_name = link_frame_name'\<rparr>;
                 st = st\<lparr>link_info_map := map_insert link_name l_info (link_info_map st)\<rparr>;
                 st = populateJointInfoMap component_handle st
             in (case populateExportedFrameInfoMap h component_handle st of
                   (Normal, st) \<Rightarrow>
                     addMeshAndExport component_handle link_frame_name'
                       (st\<lparr>idyn_model := addLink urdf_link_name link (idyn_model st)\<rparr>)
                 | (Returned, st) \<Rightarrow> (Returned, st)
                 | (Thrown e, st) \<Rightarrow> (Thrown e, st)))"

text \<open>
  Lines 147 to 218: one step of the loop over the joint candidates. The four cells of the
  table of limits are read in the order of the source. The two renamed link names are
  arguments of the one call of \<^verbatim>\<open>addJoint\<close>, in an order the language leaves open: the
  child's is looked up first, as the compiled program does.
\<close>

definition add_joint_or_stop ::
  "string \<Rightarrow> string \<Rightarrow> string \<Rightarrow> IJoint \<Rightarrow> Creo2Urdf \<Rightarrow> flow \<times> Creo2Urdf" where
  "add_joint_or_stop parent_link_name' child_link_name' joint_name joint st =
     (let (c, st) = getRenameElementFromConfig child_link_name' st;
          (p, st) = getRenameElementFromConfig parent_link_name' st
      in (case addJoint p c joint_name joint (idyn_model st) of
            None \<Rightarrow> (Returned, printToMessageWindow (''FAILED TO ADD JOINT '' @ joint_name) WARN st)
          | Some (idx, m) \<Rightarrow> (Normal, st\<lparr>idyn_model := m\<rparr>)))"

definition revolute_joint ::
  "Host \<Rightarrow> Session \<Rightarrow> string \<Rightarrow> Transform \<Rightarrow> Direction \<Rightarrow> RevoluteJoint option" where
  "revolute_joint h session joint_name parent_H_child axis =
     (case joints_csv_table session ''lower_limit'' joint_name of
        None \<Rightarrow> None
      | Some lower \<Rightarrow>
     (case joints_csv_table session ''upper_limit'' joint_name of
        None \<Rightarrow> None
      | Some upper \<Rightarrow>
     (case joints_csv_table session ''damping'' joint_name of
        None \<Rightarrow> None
      | Some damping \<Rightarrow>
     (case joints_csv_table session ''friction'' joint_name of
        None \<Rightarrow> None
      | Some friction \<Rightarrow>
          Some \<lparr>rev_parent_H_child = parent_H_child, rev_axis_direction = axis,
                rev_axis_origin = getPosition parent_H_child, rev_posLimitsEnabled = True,
                rev_posLimits = (lower * deg2rad h, upper * deg2rad h),
                rev_damping = damping, rev_staticFriction = friction\<rparr>))))"

definition joint_body :: "Host \<Rightarrow> Session \<Rightarrow> string \<times> JointInfo \<Rightarrow> Creo2Urdf \<Rightarrow> flow \<times> Creo2Urdf" where
  "joint_body h session joint_info st =
     (let parent_link_name' = parent_link_name (snd joint_info);
          child_link_name' = child_link_name (snd joint_info);
          axis_name = name (snd joint_info)
      in if child_link_name' = [] then (Normal, st)
         else
           let (joint_name, st) =
                 getRenameElementFromConfig (parent_link_name' @ ''--'' @ child_link_name') st
           in (case (map_of (link_info_map st) parent_link_name',
                     map_of (link_info_map st) child_link_name') of
                 (Some parent_info, Some child_info) \<Rightarrow>
                   let root_H_parent_link = root_H_link parent_info;
                       root_H_child_link = root_H_link child_info;
                       parent_model = modelhdl parent_info;
                       parent_H_child =
                         Transform_compose (Transform_inverse root_H_parent_link) root_H_child_link
                   in if type (snd joint_info) = Revolute then
                        let (ret, axis) =
                              getRotationAxisFromPart h parent_model axis_name root_H_parent_link
                        in if \<not> ret then (Returned, st)
                           else
                             let axis = (if str_find (cfg_reverseRotationAxis (config st)) joint_name \<noteq> None
                                         then Direction_reverse axis else axis)
                             in (case revolute_joint h session joint_name parent_H_child axis of
                                   None \<Rightarrow> (Thrown out_of_range, st)
                                 | Some joint \<Rightarrow>
                                     add_joint_or_stop parent_link_name' child_link_name' joint_name
                                       (RevoluteJ joint) st)
                      else if type (snd joint_info) = Fixed then
                        add_joint_or_stop parent_link_name' child_link_name' joint_name
                          (FixedJ parent_H_child) st
                      else (Normal, st)
               | _ \<Rightarrow> (Thrown out_of_range, st)))"

text \<open>Lines 227 to 270: the frames of the sensors and the exported frames.\<close>

definition sensor_frame :: "SensorInfo \<Rightarrow> Creo2Urdf \<Rightarrow> Creo2Urdf" where
  "sensor_frame sensor st =
     (if sensor_exportFrameInURDF sensor then
        (case addAdditionalFrameToLink (sensor_linkName sensor) (sensor_exportedFrameName sensor)
                (sensor_transform sensor) (idyn_model st) of
           (True, m) \<Rightarrow> st\<lparr>idyn_model := m\<rparr>
         | (False, m) \<Rightarrow>
             printToMessageWindow
               (''Failed to add additional frame  '' @ sensor_exportedFrameName sensor) WARN st)
      else st)"

definition ft_sensor_frame :: "string \<times> FTSensorInfo \<Rightarrow> Creo2Urdf \<Rightarrow> Creo2Urdf" where
  "ft_sensor_frame ftsensor st =
     (if ft_exportFrameInURDF (snd ftsensor) then
        (case getJointIndex (idyn_model st) (fst ftsensor) of
           None \<Rightarrow>
             printToMessageWindow
               (''Failed to add additional frame, ftsensor: '' @ ft_sensorName (snd ftsensor)
                  @ '' is not in the model'') WARN st
         | Some joint_idx \<Rightarrow>
             let joint = joints (idyn_model st) ! joint_idx;
                 link_name = fst (links (idyn_model st) ! je_firstLink joint)
             in (case addAdditionalFrameToLink link_name (ft_exportedFrameName (snd ftsensor))
                        (parent_link_H_sensor (snd ftsensor)) (idyn_model st) of
                   (True, m) \<Rightarrow> st\<lparr>idyn_model := m\<rparr>
                 | (False, m) \<Rightarrow>
                     printToMessageWindow
                       (''Failed to add additional frame  '' @ ft_exportedFrameName (snd ftsensor))
                       WARN st))
      else st)"

definition exported_frame :: "string \<times> ExportedFrameInfo \<Rightarrow> Creo2Urdf \<Rightarrow> Creo2Urdf" where
  "exported_frame exported_frame_info st =
     (let reference_link = frameReferenceLink (snd exported_frame_info) in
      if getLinkIndex (idyn_model st) reference_link = None then
        printToMessageWindow
          (''Failed to add additional frame, link '' @ reference_link @ '' is not in the model'')
          WARN st
      else
        (case addAdditionalFrameToLink reference_link (exportedFrameName (snd exported_frame_info))
                (Transform_compose (linkFrame_H_additionalFrame (snd exported_frame_info))
                   (additionalTransformation (snd exported_frame_info))) (idyn_model st) of
           (True, m) \<Rightarrow> st\<lparr>idyn_model := m\<rparr>
         | (False, m) \<Rightarrow>
             printToMessageWindow
               (''Failed to add additional frame  '' @ exportedFrameName (snd exported_frame_info))
               WARN st))"

text \<open>Lines 276 to 299: the options handed to the exporter.\<close>

definition gazebo_pose_xml_str :: "Host \<Rightarrow> Creo2Urdf \<Rightarrow> string" where
  "gazebo_pose_xml_str h st =
     ''<gazebo><pose>'' @
       (to_string h (get3 (originXYZ st) 0) @ '' '' @ to_string h (get3 (originXYZ st) 1) @ '' '' @
        to_string h (get3 (originXYZ st) 2) @ '' '' @ to_string h (get3 (originRPY st) 0) @ '' '' @
        to_string h (get3 (originRPY st) 1) @ '' '' @ to_string h (get3 (originRPY st) 2))
       @ ''</pose></gazebo>''"

definition export_options :: "Host \<Rightarrow> Sensorizer \<Rightarrow> Creo2Urdf \<Rightarrow> ModelExporterOptions" where
  "export_options h sensorizer st =
     (let export_options = \<lparr>robotExportedName = cfg_robotName (config st), baseLink = [],
                             xmlBlobs = []\<rparr>;
          export_options =
            (case cfg_root (config st) of
               Some r \<Rightarrow> export_options\<lparr>baseLink := r\<rparr>
             | None \<Rightarrow>
                 export_options\<lparr>baseLink :=
                   (case cfg_rename (config st) ''SIM_ECUB_1-1_ROOT_LINK'' of
                      Some r \<Rightarrow> r
                    | None \<Rightarrow> [])\<rparr>);
          export_options =
            (case cfg_XMLBlobs (config st) of
               Some blobs \<Rightarrow> export_options\<lparr>xmlBlobs := blobs @ [gazebo_pose_xml_str h st]\<rparr>
             | None \<Rightarrow> export_options);
          ft_xml_blobs = buildFTXMLBlobs h sensorizer;
          sens_xml_blobs = buildSensorsXMLBlobs h sensorizer
      in export_options\<lparr>xmlBlobs := (xmlBlobs export_options @ ft_xml_blobs) @ sens_xml_blobs\<rparr>)"

text \<open>
  The whole command: \<open>finish_run\<close> is its end, from the sensor frames to the export,
  \<open>begin_run\<close> its beginning up to the traversal, which returns when the configuration
  does not load or the assembly has no feature. The traversal and the joint loop can
  leave the command early.
\<close>

definition finish_run :: "Host \<Rightarrow> Sensorizer \<Rightarrow> Creo2Urdf \<Rightarrow> flow \<times> Creo2Urdf" where
  "finish_run h sensorizer st =
     (let sensorizer = assignTransformToSensors h (exported_frame_info_map st) sensorizer;
          sensorizer =
            assignTransformToFTSensor h (link_info_map st) (joint_info_map st) (scale st) sensorizer;
          st = fold sensor_frame (sensors sensorizer) st;
          st = fold ft_sensor_frame (ft_sensors sensorizer) st;
          st = fold exported_frame (exported_frame_info_map st) st
      in (Normal, snd (exportModelToUrdf h (idyn_model st) (export_options h sensorizer st) st)))"

definition begin_run :: "Host \<Rightarrow> Session \<Rightarrow> Creo2Urdf \<Rightarrow> flow \<times> Creo2Urdf" where
  "begin_run h session st =
     (let st = st\<lparr>idyn_model := Model_empty\<rparr>;
          st = printToMessageWindow ''Please select the .yaml configuration file'' INFO st;
          (loaded, st) = loadYamlConfig (yaml_path session) (yaml_file session) st
      in if \<not> loaded
         then (Returned, printToMessageWindow ''Failed to run Creo2Urdf!'' WARN st)
         else
           let st = printToMessageWindow ''Please select the .csv configuration file'' INFO st
           in if length (asm_component_list session) = 0
              then (Returned, printToMessageWindow ''There are no FEATURES in the asm'' WARN st)
              else (Normal, prepare_run h st))"

definition OnCommand :: "Host \<Rightarrow> Session \<Rightarrow> Creo2Urdf \<Rightarrow> flow \<times> Creo2Urdf" where
  "OnCommand h session st =
     (case begin_run h session st of
        (Normal, st) \<Rightarrow>
          let sensorizer = \<lparr>sensors = [], ft_sensors = []\<rparr>;
              sensorizer = readFTSensorsFromConfig h (config st) sensorizer;
              sensorizer = readSensorsFromConfig h (config st) sensorizer
          in (case for_each (component_body h) (asm_component_list session) st of
                (Normal, st) \<Rightarrow>
                  (case for_each (joint_body h session) (joint_info_map st) st of
                     (Normal, st) \<Rightarrow> finish_run h sensorizer st
                   | (Returned, st) \<Rightarrow> (Returned, st)
                   | (Thrown e, st) \<Rightarrow> (Thrown e, st))
              | (Returned, st) \<Rightarrow> (Returned, st)
              | (Thrown e, st) \<Rightarrow> (Thrown e, st))
      | (Returned, st) \<Rightarrow> (Returned, st)
      | (Thrown e, st) \<Rightarrow> (Thrown e, st))"

text \<open>The converter with other values of the two origin members.\<close>

definition set_origin :: "array3 \<Rightarrow> array3 \<Rightarrow> Creo2Urdf \<Rightarrow> Creo2Urdf" where
  "set_origin xyz rpy st = st\<lparr>originXYZ := xyz, originRPY := rpy\<rparr>"

section \<open>Example data\<close>

text \<open>
  A configuration with the keys the source requires and no option set, and a converter
  before its first run.
\<close>

definition cfg0 :: Config where
  "cfg0 = \<lparr>cfg_scale = None, cfg_originXYZ = None, cfg_originRPY = None,
     cfg_exportAllUseradded = None, cfg_rename = Map.empty, cfg_linkFrames = [],
     cfg_assignedMasses = Map.empty, cfg_assignedInertias = None,
     cfg_assignedCollisionGeometry = None, cfg_exportedFrames = None,
     cfg_reverseRotationAxis = [], cfg_robotName = ''robot'', cfg_root = None,
     cfg_XMLBlobs = None, cfg_stringToRemoveFromMeshFileName = None,
     cfg_forcelowercase = Some False, cfg_filenameformat = None,
     cfg_assignedColors = Map.empty\<rparr>"

definition st0 :: Creo2Urdf where
  "st0 = \<lparr>idyn_model = Model_empty, config = cfg0, joint_info_map = [], link_info_map = [],
     exported_frame_info_map = [], assigned_inertias_map = [],
     assigned_collision_geometry_map = [], scale = Array3 1 1 1, originXYZ = Array3 0 0 0,
     originRPY = Array3 0 0 0, exportAllUseradded = False, messages = [], stl_files = [],
     exported = None\<rparr>"

text \<open>A rename table in which a canonical name is itself a key.\<close>

definition chain_st :: Creo2Urdf where
  "chain_st = st0\<lparr>config := cfg0\<lparr>cfg_rename := map_of [(''ARM_1'', ''l_arm''), (''l_arm'', ''left_arm'')]\<rparr>\<rparr>"

text \<open>A part with a tensor that is not diagonal, and a converter holding a diagonal
  override for its link.\<close>

definition arm :: Component where
  "arm = \<lparr>full_name = ''ARM_1'', axes = [], coord_sys = [], mass = 3.1,
     gravity_center = Array3 0 0 0,
     cg_inertia_tensor = (\<lambda>i j. if i = j then 4 else if i + j = 1 then 1 / 2 else 0)\<rparr>"

definition inertia_st :: Creo2Urdf where
  "inertia_st = st0\<lparr>assigned_inertias_map := [(''arm_link'', Array3 1 2 3)]\<rparr>"

text \<open>Three parts that share the axis \<open>AXIS_J1\<close>.\<close>

definition part :: "string \<Rightarrow> string list \<Rightarrow> string list \<Rightarrow> Component" where
  "part n axs cs = \<lparr>full_name = n, axes = axs, coord_sys = cs, mass = 1,
     gravity_center = Array3 0 0 0, cg_inertia_tensor = (\<lambda>i j. if i = j then 1 else 0)\<rparr>"

definition arm_1 :: Component where
  "arm_1 = part ''ARM_1'' [''AXIS_J1''] [''CSYS'']"

definition arm_2 :: Component where
  "arm_2 = part ''ARM_2'' [''AXIS_J1'', ''AXIS_J0''] [''CSYS'']"

definition arm_3 :: Component where
  "arm_3 = part ''ARM_3'' [''AXIS_J1''] [''CSYS'']"

text \<open>
  A host, a configuration and a session for an assembly of two parts, \<open>ARM_1\<close> and
  \<open>ARM_2\<close>, that share \<open>AXIS_J1\<close>; \<open>AXIS_J0\<close> is on \<open>ARM_2\<close> only. \<open>ARM_1\<close> is placed a
  quarter turn about z away from the root, at \<open>(1, 0, 0)\<close>, and \<open>ARM_2\<close> at \<open>(0, 0, 2)\<close>.
  \<open>decimal6\<close> prints the few numbers of the examples as \<^verbatim>\<open>std::to_string\<close> does.
  \<open>traversed_st\<close> holds the tables and the links as the traversal leaves them.
\<close>

definition quarter_turn :: Rotation where
  "quarter_turn = Rotation 0 (- 1) 0  1 0 0  0 0 1"

definition decimal6 :: "real \<Rightarrow> string" where
  "decimal6 x =
     (if x = 0 then ''0.000000'' else if x = 1 then ''1.000000''
      else if x = 2 then ''2.000000'' else if x = 3 then ''3.000000'' else ''other'')"

definition host0 :: Host where
  "host0 = \<lparr>
     getTransformFromRootToChild = (\<lambda>c frame s.
        (True, if full_name c = ''ARM_2'' then Transform Rotation_Identity (Position 0 0 2) else
               if full_name c = ''ARM_1'' then Transform quarter_turn (Position 1 0 0)
               else Transform Rotation_Identity (Position 0 0 0))),
     getTransformFromPart = (\<lambda>c frame s. (True, Transform_Identity)),
     getRotationAxisFromPart = (\<lambda>c axis H. (True, Direction 0 0 1)),
     isPhysicallyConsistent = (\<lambda>I. True),
     Rotation_RPY = (\<lambda>r p y. Rotation_Identity),
     deg2rad = 1 / 57,
     to_string = decimal6,
     readFTSensorsFromConfig = (\<lambda>c s. s),
     readSensorsFromConfig = (\<lambda>c s. s),
     assignTransformToSensors = (\<lambda>m s. s),
     assignTransformToFTSensor = (\<lambda>l j sc s. s),
     buildFTXMLBlobs = (\<lambda>s. []),
     buildSensorsXMLBlobs = (\<lambda>s. []),
     exporter_isValid = (\<lambda>m opt. True),
     exportModelToFile = (\<lambda>m opt. True)\<rparr>"

definition cfg_arms :: Config where
  "cfg_arms = cfg0\<lparr>cfg_rename := map_of [(''ARM_1'', ''arm_1''), (''ARM_2'', ''arm_2''),
       (''ARM_1--ARM_2'', ''elbow'')],
     cfg_reverseRotationAxis := ''elbow,wrist'', cfg_root := Some ''arm_1''\<rparr>"

definition session_arms :: Session where
  "session_arms = \<lparr>yaml_path = ''arms.yaml'', yaml_file = Loaded cfg_arms,
     joints_csv_table = (\<lambda>col row. if row = ''elbow'' then Some 0 else None),
     asm_component_list = [\<lparr>is_component = True, feat_model = arm_1\<rparr>,
                           \<lparr>is_component = True, feat_model = arm_2\<rparr>]\<rparr>"

definition unit_inertia :: SpatialInertia where
  "unit_inertia = \<lparr>si_mass = 1, si_com = Position 0 0 0,
     si_rotInertiaWrtCom = (\<lambda>i j. if i = j then 1 else 0)\<rparr>"

definition traversed_st :: Creo2Urdf where
  "traversed_st = st0\<lparr>
     config := cfg_arms,
     idyn_model := Model_empty\<lparr>links := [(''arm_1'', unit_inertia), (''arm_2'', unit_inertia)],
        collisionSolidShapes := [[], []], visualSolidShapes := [[], []]\<rparr>,
     link_info_map :=
       [(''ARM_1'', \<lparr>li_name = ''arm_1'', modelhdl = arm_1,
           root_H_link = Transform quarter_turn (Position 1 0 0), link_frame_name = []\<rparr>),
        (''ARM_2'', \<lparr>li_name = ''arm_2'', modelhdl = arm_2,
           root_H_link = Transform Rotation_Identity (Position 0 0 2), link_frame_name = []\<rparr>)],
     joint_info_map :=
       [(''AXIS_J0'', \<lparr>name = ''AXIS_J0'', type = Revolute, parent_link_name = ''ARM_2'',
           child_link_name = []\<rparr>),
        (''AXIS_J1'', \<lparr>name = ''AXIS_J1'', type = Revolute, parent_link_name = ''ARM_1'',
           child_link_name = ''ARM_2''\<rparr>)]\<rparr>"

definition elbow_candidate :: "string \<times> JointInfo" where
  "elbow_candidate = (''AXIS_J1'', \<lparr>name = ''AXIS_J1'', type = Revolute,
     parent_link_name = ''ARM_1'', child_link_name = ''ARM_2''\<rparr>)"

definition dangling_candidate :: "string \<times> JointInfo" where
  "dangling_candidate = (''AXIS_J0'', \<lparr>name = ''AXIS_J0'', type = Revolute,
     parent_link_name = ''ARM_2'', child_link_name = []\<rparr>)"

text \<open>
  A part with a marked and an unmarked coordinate system, and a configuration that turns
  the blanket export on and also lists the marked one under \<open>exportedFrames\<close>.
\<close>

definition hand :: Component where
  "hand = part ''HAND'' [] [''SCSYS_TOOL'', ''CSYS'']"

definition cfg_tool :: Config where
  "cfg_tool = cfg0\<lparr>cfg_exportAllUseradded := Some True,
     cfg_exportedFrames := Some [\<lparr>ef_frameName = ''SCSYS_TOOL'', ef_frameReferenceLink = ''hand'',
        ef_exportedFrameName = ''tool_frame'', ef_additionalTransformation = None\<rparr>]\<rparr>"

definition tool_st :: Creo2Urdf where
  "tool_st = prepare_run host0 (st0\<lparr>config := cfg_tool\<rparr>)"

definition hand_info :: LinkInfo where
  "hand_info = \<lparr>li_name = ''HAND'', modelhdl = hand,
     root_H_link = Transform_Identity, link_frame_name = []\<rparr>"

definition tool_linked_st :: Creo2Urdf where
  "tool_linked_st = tool_st\<lparr>link_info_map := [(''HAND'', hand_info)]\<rparr>"

definition tool_frame_info :: ExportedFrameInfo where
  "tool_frame_info = \<lparr>frameReferenceLink = ''hand'', exportedFrameName = ''tool_frame'',
     linkFrame_H_additionalFrame = Transform_Identity,
     additionalTransformation = Transform_Identity\<rparr>"

definition tool_registered_st :: Creo2Urdf where
  "tool_registered_st = tool_linked_st\<lparr>exported_frame_info_map := [(''SCSYS_TOOL'', tool_frame_info)]\<rparr>"

text \<open>
  Two runs on an assembly of one part without axes and without marked coordinate systems;
  between the runs the configured inertia of the link changes from \<open>(1, 1, 1)\<close> to
  \<open>(2, 2, 2)\<close>. \<open>first_prepared\<close> is the converter when the first traversal starts.
\<close>

definition base_no_axis :: Component where
  "base_no_axis = part ''BASE'' [] [''CSYS'']"

definition cfg_first :: Config where
  "cfg_first = cfg0\<lparr>cfg_rename := map_of [(''BASE'', ''base'')],
     cfg_assignedInertias := Some [\<lparr>ai_linkName = ''base'', ai_xx = 1, ai_yy = 1, ai_zz = 1\<rparr>]\<rparr>"

definition cfg_second :: Config where
  "cfg_second = cfg0\<lparr>cfg_rename := map_of [(''BASE'', ''base'')],
     cfg_assignedInertias := Some [\<lparr>ai_linkName = ''base'', ai_xx = 2, ai_yy = 2, ai_zz = 2\<rparr>]\<rparr>"

definition session_first :: Session where
  "session_first = \<lparr>yaml_path = ''first.yaml'', yaml_file = Loaded cfg_first,
     joints_csv_table = (\<lambda>col row. None),
     asm_component_list = [\<lparr>is_component = True, feat_model = base_no_axis\<rparr>]\<rparr>"

definition session_second :: Session where
  "session_second = session_first\<lparr>yaml_path := ''second.yaml'', yaml_file := Loaded cfg_second\<rparr>"

definition first_prepared :: Creo2Urdf where
  "first_prepared = st0\<lparr>config := cfg_first,
     assigned_inertias_map := [(''base'', Array3 1 1 1)],
     messages := [(INFO, ''Please select the .yaml configuration file''),
                  (INFO, ''Configuration file first.yaml was loaded successfully''),
                  (INFO, ''Please select the .csv configuration file'')]\<rparr>"



text \<open>The converter after the traversal of the two arms, with a box configured as the
  collision geometry of \<open>arm_1\<close>; and the grey mesh of a file.\<close>

definition box_info :: CollisionGeometryInfo where
  "box_info = \<lparr>shape = ShapeBox, size_cg = Array3 1 2 3, radius = 0, length_cg = 0,
     link_H_geometry = Transform_Identity\<rparr>"

definition collision_st :: Creo2Urdf where
  "collision_st = traversed_st\<lparr>assigned_collision_geometry_map := [(''arm_1'', box_info)]\<rparr>"

definition grey_mesh :: "string \<Rightarrow> ExternalMesh" where
  "grey_mesh f = \<lparr>mesh_filename = f, mesh_scale = Array3 1 1 1, mesh_color = [1 / 2, 1 / 2, 1 / 2, 1]\<rparr>"

section \<open>Properties\<close>

subsection \<open>The rename lookup\<close>

lemma rename_config_unchanged:
  "config (snd (getRenameElementFromConfig x st)) = config st"
  by (simp add: getRenameElementFromConfig_def printToMessageWindow_def split: option.split)

text \<open>
  C6, as the code has it. A name absent from the rename table is returned as it is, with a
  warning in the message window; a name in the table is returned as its entry, with no
  message. Looking the result up again gives the same result whenever that result is not
  a key of the table or is mapped to itself; in particular for every name that is absent.
\<close>

theorem rename_lookup:
  "(cfg_rename (config st) x = None \<longrightarrow>
      getRenameElementFromConfig x st =
        (x, printToMessageWindow
              (''Element '' @ x @ '' is not present in the configuration file!'') WARN st)) \<and>
   (\<forall>y. cfg_rename (config st) x = Some y \<longrightarrow> getRenameElementFromConfig x st = (y, st)) \<and>
   (let r = fst (getRenameElementFromConfig x st); st' = snd (getRenameElementFromConfig x st)
    in cfg_rename (config st) r = None \<or> cfg_rename (config st) r = Some r \<longrightarrow>
       fst (getRenameElementFromConfig r st') = r)"
  by (auto simp: getRenameElementFromConfig_def printToMessageWindow_def Let_def split: option.splits)

text \<open>
  The lookup is not idempotent for every name: with the table
  \<open>ARM_1 \<mapsto> l_arm, l_arm \<mapsto> left_arm\<close> the name \<open>ARM_1\<close> gives \<open>l_arm\<close>, and \<open>l_arm\<close>
  gives \<open>left_arm\<close>.
\<close>

theorem rename_chain_counterexample:
  "fst (getRenameElementFromConfig ''ARM_1'' chain_st) = ''l_arm'' \<and>
   fst (getRenameElementFromConfig (fst (getRenameElementFromConfig ''ARM_1'' chain_st))
          (snd (getRenameElementFromConfig ''ARM_1'' chain_st))) = ''left_arm'' \<and>
   fst (getRenameElementFromConfig (fst (getRenameElementFromConfig ''ARM_1'' chain_st))
          (snd (getRenameElementFromConfig ''ARM_1'' chain_st)))
     \<noteq> fst (getRenameElementFromConfig ''ARM_1'' chain_st)"
  by (simp add: chain_st_def cfg0_def st0_def getRenameElementFromConfig_def)

theorem rename_lookup_witness:
  "getRenameElementFromConfig ''left_arm'' chain_st =
     (''left_arm'', printToMessageWindow
        ''Element left_arm is not present in the configuration file!'' WARN chain_st) \<and>
   getRenameElementFromConfig ''l_arm'' chain_st = (''left_arm'', chain_st) \<and>
   fst (getRenameElementFromConfig ''left_arm'' (snd (getRenameElementFromConfig ''l_arm'' chain_st))) = ''left_arm''"
  using rename_lookup [where st = chain_st and x = "''left_arm''"]
    rename_lookup [where st = chain_st and x = "''l_arm''"]
  by (simp add: chain_st_def cfg0_def st0_def Let_def getRenameElementFromConfig_def)

subsection \<open>The inertia tensor\<close>

lemma upt_3: "[0..<3] = [0, 1, 2]"
  by (simp add: upt_rec)

lemma inertia_tensor_loop_entry:
  assumes "i < 3" and "j < 3"
  shows "inertia_tensor_loop st mass_prop link_name i j =
           (case map_of (assigned_inertias_map st) link_name of
              Some assigned \<Rightarrow>
                if i = j then get3 assigned i
                else cg_inertia_tensor mass_prop i j * get3 (scale st) i * get3 (scale st) j
            | None \<Rightarrow> cg_inertia_tensor mass_prop i j * get3 (scale st) i * get3 (scale st) j)"
proof -
  from assms have "i = 0 \<or> i = 1 \<or> i = 2" and "j = 0 \<or> j = 1 \<or> j = 2"
    by arith+
  then show ?thesis
    by (cases "map_of (assigned_inertias_map st) link_name")
       (auto simp: inertia_tensor_loop_def upt_3 inertia_entry_def setVal_def)
qed

text \<open>
  C1, as the code has it. For a link with a diagonal-inertia override, the tensor that
  \<open>computeSpatialInertiafromCreo\<close> builds has the three configured values on its
  diagonal, whatever the CAD tensor holds there; an entry off the diagonal is the CAD
  entry multiplied by the scale of its row and the scale of its column.
\<close>

theorem assigned_inertia_tensor:
  assumes "map_of (assigned_inertias_map st) link_name = Some assigned"
    and "i < 3" and "j < 3"
  shows "si_rotInertiaWrtCom (computeSpatialInertiafromCreo st mass_prop H link_name) i j =
           (if i = j then get3 assigned i
            else cg_inertia_tensor mass_prop i j * get3 (scale st) i * get3 (scale st) j)"
  using assms by (simp add: computeSpatialInertiafromCreo_def Let_def inertia_tensor_loop_entry)

theorem assigned_inertia_tensor_witness:
  "map_of (assigned_inertias_map inertia_st) ''arm_link'' = Some (Array3 1 2 3) \<and>
   si_rotInertiaWrtCom (computeSpatialInertiafromCreo inertia_st arm Transform_Identity ''arm_link'') 1 1 = 2 \<and>
   si_rotInertiaWrtCom (computeSpatialInertiafromCreo inertia_st arm Transform_Identity ''arm_link'') 2 0 = 0"
proof -
  have m: "map_of (assigned_inertias_map inertia_st) ''arm_link'' = Some (Array3 1 2 3)"
    by (simp add: inertia_st_def st0_def)
  show ?thesis
    using m assigned_inertia_tensor [OF m, where i = 1 and j = 1 and mass_prop = arm and H = Transform_Identity]
      assigned_inertia_tensor [OF m, where i = 2 and j = 0 and mass_prop = arm and H = Transform_Identity]
    by (simp add: arm_def inertia_st_def st0_def)
qed

text \<open>
  The entries off the diagonal are not zero: with the override \<open>(1, 2, 3)\<close>, scale 1 and a
  CAD tensor holding \<open>1/2\<close> in row 0, column 1, that entry of the result is \<open>1/2\<close>.
\<close>

theorem assigned_inertia_off_diagonal_counterexample:
  "map_of (assigned_inertias_map inertia_st) ''arm_link'' = Some (Array3 1 2 3) \<and>
   si_rotInertiaWrtCom (computeSpatialInertiafromCreo inertia_st arm Transform_Identity ''arm_link'') 0 1 = 1 / 2 \<and>
   si_rotInertiaWrtCom (computeSpatialInertiafromCreo inertia_st arm Transform_Identity ''arm_link'') 0 1 \<noteq> 0"
  by (simp add: computeSpatialInertiafromCreo_def Let_def inertia_tensor_loop_def upt_3
      inertia_entry_def setVal_def arm_def inertia_st_def st0_def)

subsection \<open>Lookups in the tables\<close>

lemma map_of_insort_key:
  "map_of m k = None \<Longrightarrow> map_of (insort_key fst (k, v) m) = (map_of m)(k \<mapsto> v)"
  by (induction m) (auto simp: fun_upd_twist split: if_splits)

lemma map_of_map_insert:
  "map_of (map_insert k v m) = (if map_of m k = None then (map_of m)(k \<mapsto> v) else map_of m)"
  by (simp add: map_insert_def map_of_insort_key)

lemma map_of_map_modify:
  "map_of (map_modify k f m) k' = (if k' = k then map_option f (map_of m k) else map_of m k')"
  by (induction m) (auto simp: map_modify_def)

lemma count_list_member: "x \<in> set xs \<Longrightarrow> Suc 0 \<le> count_list xs x"
  by (induction xs) auto

subsection \<open>The joint-candidate table\<close>

lemma map_of_axis_loop:
  "map_of (axis_loop link_name axs m) k =
     (if k \<notin> set axs then map_of m k
      else case map_of m k of
             None \<Rightarrow> Some \<lparr>name = k, type = Revolute, parent_link_name = link_name,
                        child_link_name = (if 2 \<le> count_list axs k then link_name else [])\<rparr>
           | Some e \<Rightarrow> Some (e\<lparr>child_link_name := link_name\<rparr>))"
proof (induction axs arbitrary: m)
  case Nil
  then show ?case by simp
next
  case (Cons a axs)
  show ?case
    by (cases "map_of m a"; cases "map_of m k")
       (auto simp: Cons.IH Let_def map_of_map_insert map_of_map_modify count_list_member)
qed

lemma map_of_csys_loop:
  "map_of (csys_loop link_name cs m) k =
     (if k \<notin> set (marked cs) then map_of m k
      else case map_of m k of
             None \<Rightarrow> Some \<lparr>name = k, type = Fixed, parent_link_name = link_name,
                        child_link_name = (if 2 \<le> count_list (marked cs) k then link_name else [])\<rparr>
           | Some e \<Rightarrow> Some (e\<lparr>child_link_name := link_name\<rparr>))"
proof (induction cs arbitrary: m)
  case Nil
  then show ?case by (simp add: marked_def)
next
  case (Cons a cs)
  show ?case
    by (cases "map_of m a"; cases "map_of m k")
       (auto simp: Cons.IH Let_def map_of_map_insert map_of_map_modify marked_def count_list_member)
qed

lemma joint_info_map_populateJointInfoMap:
  "joint_info_map (populateJointInfoMap c st) =
     csys_loop (full_name c) (coord_sys c) (axis_loop (full_name c) (axes c) (joint_info_map st))"
  by (simp add: populateJointInfoMap_def Let_def printToMessageWindow_def)

lemma messages_populateJointInfoMap:
  "messages (populateJointInfoMap c st) = messages st
     @ (if axes c = [] then [(WARN, ''There is no AXIS in the part '' @ full_name c)] else [])
     @ (if coord_sys c = [] then [(WARN, ''There is no CSYS in the part '' @ full_name c)] else [])"
  by (simp add: populateJointInfoMap_def Let_def printToMessageWindow_def)

lemma map_of_populateJointInfoMap:
  "map_of (joint_info_map (populateJointInfoMap c st)) k =
     (if k \<notin> set (joint_keys c) then map_of (joint_info_map st) k
      else case map_of (joint_info_map st) k of
             None \<Rightarrow> Some \<lparr>name = k, type = (if k \<in> set (axes c) then Revolute else Fixed),
                        parent_link_name = full_name c,
                        child_link_name = (if 2 \<le> count_list (joint_keys c) k then full_name c else [])\<rparr>
           | Some e \<Rightarrow> Some (e\<lparr>child_link_name := full_name c\<rparr>))"
proof -
  have a: "k \<in> set (axes c) \<Longrightarrow> Suc 0 \<le> count_list (axes c) k"
    and b: "k \<in> set (marked (coord_sys c)) \<Longrightarrow> Suc 0 \<le> count_list (marked (coord_sys c)) k"
    by (simp_all add: count_list_member)
  have c: "k \<notin> set (axes c) \<Longrightarrow> count_list (axes c) k = 0"
    and d: "k \<notin> set (marked (coord_sys c)) \<Longrightarrow> count_list (marked (coord_sys c)) k = 0"
    by (simp_all add: count_list_0_iff)
  show ?thesis
    unfolding joint_info_map_populateJointInfoMap map_of_csys_loop map_of_axis_loop joint_keys_def
    using a b c d by (cases "map_of (joint_info_map st) k") (auto split: option.splits)
qed

text \<open>
  C2, as the code has it. When a part is visited, a key it does not observe keeps its
  entry. For a key it observes, an absent entry is created with the part as parent (and
  as child too when the part observes the key twice); an existing entry keeps its parent
  and has its child set to the part, whether or not it had a child already. So the first
  observation sets the parent, the second sets the child, and every later observation
  overwrites the child. The only messages written are the two warnings about a part
  without axes or without coordinate systems.
\<close>

theorem populateJointInfoMap_entry:
  "let st' = populateJointInfoMap c st; keys = joint_keys c in
     (k \<notin> set keys \<longrightarrow> map_of (joint_info_map st') k = map_of (joint_info_map st) k) \<and>
     (k \<in> set keys \<longrightarrow>
        map_of (joint_info_map st') k =
          (case map_of (joint_info_map st) k of
             None \<Rightarrow> Some \<lparr>name = k, type = (if k \<in> set (axes c) then Revolute else Fixed),
                        parent_link_name = full_name c,
                        child_link_name = (if 2 \<le> count_list keys k then full_name c else [])\<rparr>
           | Some e \<Rightarrow> Some (e\<lparr>child_link_name := full_name c\<rparr>))) \<and>
     messages st' = messages st
       @ (if axes c = [] then [(WARN, ''There is no AXIS in the part '' @ full_name c)] else [])
       @ (if coord_sys c = [] then [(WARN, ''There is no CSYS in the part '' @ full_name c)] else [])"
  unfolding Let_def
  by (simp add: map_of_populateJointInfoMap messages_populateJointInfoMap del: set_append)

text \<open>
  A third observation is not reported: after \<open>ARM_1\<close>, \<open>ARM_2\<close> and \<open>ARM_3\<close>, which all
  hold \<open>AXIS_J1\<close>, the child \<open>ARM_2\<close> has been overwritten by \<open>ARM_3\<close> and the message
  window is empty.
\<close>

lemmas joint_example_defs = arm_1_def arm_2_def arm_3_def part_def st0_def populateJointInfoMap_def Let_def map_insert_def
   map_modify_def printToMessageWindow_def

theorem third_observation_counterexample:
  "map_of (joint_info_map (populateJointInfoMap arm_2 (populateJointInfoMap arm_1 st0))) ''AXIS_J1'' =
     Some \<lparr>name = ''AXIS_J1'', type = Revolute, parent_link_name = ''ARM_1'', child_link_name = ''ARM_2''\<rparr> \<and>
   map_of (joint_info_map (populateJointInfoMap arm_3 (populateJointInfoMap arm_2 (populateJointInfoMap arm_1 st0)))) ''AXIS_J1'' =
     Some \<lparr>name = ''AXIS_J1'', type = Revolute, parent_link_name = ''ARM_1'', child_link_name = ''ARM_3''\<rparr> \<and>
   messages (populateJointInfoMap arm_3 (populateJointInfoMap arm_2 (populateJointInfoMap arm_1 st0))) = []"
  by (simp add: joint_example_defs)

theorem populateJointInfoMap_entry_witness:
  "map_of (joint_info_map (populateJointInfoMap arm_1 st0)) ''AXIS_J1'' =
     Some \<lparr>name = ''AXIS_J1'', type = Revolute, parent_link_name = ''ARM_1'', child_link_name = []\<rparr> \<and>
   map_of (joint_info_map (populateJointInfoMap arm_2 (populateJointInfoMap arm_1 st0))) ''AXIS_J1'' =
     Some \<lparr>name = ''AXIS_J1'', type = Revolute, parent_link_name = ''ARM_1'', child_link_name = ''ARM_2''\<rparr> \<and>
   map_of (joint_info_map (populateJointInfoMap arm_2 (populateJointInfoMap arm_1 st0))) ''SCSYS_TOOL'' = None \<and>
   messages (populateJointInfoMap arm_2 (populateJointInfoMap arm_1 st0)) = []"
  using populateJointInfoMap_entry [where c = arm_1 and st = st0 and k = "''AXIS_J1''"]
    populateJointInfoMap_entry [where c = arm_2 and st = "populateJointInfoMap arm_1 st0" and k = "''AXIS_J1''"]
    populateJointInfoMap_entry [where c = arm_2 and st = "populateJointInfoMap arm_1 st0" and k = "''SCSYS_TOOL''"]
  by (simp add: joint_example_defs)

subsection \<open>Rigid transforms\<close>

lemma Rotation_compose_assoc:
  "Rotation_compose (Rotation_compose A B) C = Rotation_compose A (Rotation_compose B C)"
  by (cases A; cases B; cases C) (simp add: algebra_simps)

lemma Rotation_compose_Identity: "Rotation_compose Rotation_Identity R = R"
  by (cases R) (simp add: Rotation_Identity_def)

lemma Rotation_apply_compose:
  "Rotation_apply (Rotation_compose A B) q = Rotation_apply A (Rotation_apply B q)"
  by (cases A; cases B; cases q) (simp add: algebra_simps)

lemma Rotation_apply_Identity: "Rotation_apply Rotation_Identity q = q"
  by (cases q) (simp add: Rotation_Identity_def)

lemma Rotation_apply_add:
  "Rotation_apply R (Position_add a b) = Position_add (Rotation_apply R a) (Rotation_apply R b)"
  by (cases R; cases a; cases b) (simp add: algebra_simps)

lemma Rotation_apply_neg:
  "Rotation_apply R (Position_neg a) = Position_neg (Rotation_apply R a)"
  by (cases R; cases a) (simp add: algebra_simps)

lemma Position_add_cancel: "Position_add (Position_add q (Position_neg p)) p = q"
  by (cases p; cases q) simp

lemma Position_add_assoc:
  "Position_add (Position_add a b) c = Position_add a (Position_add b c)"
  by (cases a; cases b; cases c) simp

text \<open>\<^verbatim>\<open>operator*\<close> of two transforms is the composition of the maps on points.\<close>

lemma Transform_apply_compose:
  "Transform_apply (Transform_compose A B) q = Transform_apply A (Transform_apply B q)"
  by (cases A; cases B)
    (simp add: Rotation_apply_compose Rotation_apply_add Position_add_assoc)

text \<open>A rigid transform composed with its inverse composed with another transform gives
  the other one.\<close>

lemma Transform_compose_inverse_cancel:
  assumes "rigid P"
  shows "Transform_compose P (Transform_compose (Transform_inverse P) C) = C"
proof (cases P; cases C)
  fix R p R' p'
  assume P: "P = Transform R p" and C: "C = Transform R' p'"
  from assms P have o: "Rotation_compose R (Rotation_inverse R) = Rotation_Identity"
    by simp
  have r: "Rotation_compose R (Rotation_compose (Rotation_inverse R) R') = R'"
    by (simp add: Rotation_compose_assoc [symmetric] o Rotation_compose_Identity)
  have a: "Rotation_apply R (Rotation_apply (Rotation_inverse R) q) = q" for q
    by (simp add: Rotation_apply_compose [symmetric] o Rotation_apply_Identity)
  show ?thesis
    by (simp add: P C r Rotation_apply_add Rotation_apply_neg a Position_add_cancel)
qed

lemma Transform_apply_inverse_cancel:
  assumes "rigid P"
  shows "Transform_apply P (Transform_apply (Transform_compose (Transform_inverse P) C) q) =
           Transform_apply C q"
  by (simp add: Transform_apply_compose [symmetric] Transform_compose_inverse_cancel [OF assms])

subsection \<open>The joint loop\<close>

lemma str_find_sublist: "str_find s pat \<noteq> None \<longleftrightarrow> sublist pat s"
  by (induction s) (auto simp: sublist_Cons_right)

lemma for_each_skip:
  "for_each body xs st = for_each body (filter P xs) st"
  if "\<And>x st. \<not> P x \<Longrightarrow> body x st = (Normal, st)"
  using that by (induction xs arbitrary: st) (auto split: prod.splits flow.splits)

lemma rename_fields [simp]:
  "config (snd (getRenameElementFromConfig x st)) = config st"
  "link_info_map (snd (getRenameElementFromConfig x st)) = link_info_map st"
  "idyn_model (snd (getRenameElementFromConfig x st)) = idyn_model st"
  by (simp_all add: getRenameElementFromConfig_def printToMessageWindow_def split: option.split)

lemma rename_fst_rename [simp]:
  "fst (getRenameElementFromConfig x (snd (getRenameElementFromConfig y st))) =
     fst (getRenameElementFromConfig x st)"
  by (simp add: getRenameElementFromConfig_def printToMessageWindow_def split: option.split)

text \<open>A joint is added between the links that the renamed parent and child names have in
  the model, the parent's first.\<close>

lemma add_joint_or_stop_joints:
  "joints (idyn_model (snd (add_joint_or_stop p c jn j st))) =
     (if fst (add_joint_or_stop p c jn j st) = Normal
      then joints (idyn_model st) @
             [\<lparr>je_name = jn,
               je_firstLink = the (getLinkIndex (idyn_model st) (fst (getRenameElementFromConfig p st))),
               je_secondLink = the (getLinkIndex (idyn_model st) (fst (getRenameElementFromConfig c st))),
               je_joint = j\<rparr>]
      else joints (idyn_model st))"
  by (auto simp: add_joint_or_stop_def addJoint_def printToMessageWindow_def Let_def split_beta
      split: option.splits if_splits)

lemma add_joint_or_stop_links:
  "fst (add_joint_or_stop p c jn j st) = Normal \<Longrightarrow>
     \<exists>i1 i2. getLinkIndex (idyn_model st) (fst (getRenameElementFromConfig p st)) = Some i1 \<and>
             getLinkIndex (idyn_model st) (fst (getRenameElementFromConfig c st)) = Some i2 \<and>
             i1 \<noteq> i2"
  by (auto simp: add_joint_or_stop_def addJoint_def printToMessageWindow_def Let_def split_beta
      split: option.splits if_splits)

lemma revolute_joint_Some:
  "revolute_joint h session jn H ax = Some r \<Longrightarrow>
     rev_parent_H_child r = H \<and> rev_axis_direction r = ax"
  by (auto simp: revolute_joint_def split: option.splits)

text \<open>What one step of the loop does to the joints of the model, for a candidate with a
  child.\<close>

lemma joint_body_links:
  assumes "child_link_name (snd ji) \<noteq> []"
    and "type (snd ji) \<noteq> OtherJointType"
    and "fst (joint_body h session ji st) = Normal"
  shows "\<exists>i1 i2.
           getLinkIndex (idyn_model st)
             (fst (getRenameElementFromConfig (parent_link_name (snd ji)) st)) = Some i1 \<and>
           getLinkIndex (idyn_model st)
             (fst (getRenameElementFromConfig (child_link_name (snd ji)) st)) = Some i2 \<and>
           i1 \<noteq> i2"
proof (cases "type (snd ji)")
  case Revolute
  with assms show ?thesis
    by (auto simp: joint_body_def Let_def split_beta split: option.splits if_splits
        dest!: add_joint_or_stop_links)
next
  case Fixed
  with assms show ?thesis
    by (auto simp: joint_body_def Let_def split_beta split: option.splits if_splits
        dest!: add_joint_or_stop_links)
next
  case OtherJointType
  with assms show ?thesis
    by simp
qed

lemma joint_body_joints:
  assumes "child_link_name (snd ji) \<noteq> []"
    and "joint_body h session ji st = (fl, st')"
  shows "if fl = Normal \<and> type (snd ji) \<noteq> OtherJointType then
           \<exists>parent_info child_info i1 i2 joint.
             map_of (link_info_map st) (parent_link_name (snd ji)) = Some parent_info \<and>
             map_of (link_info_map st) (child_link_name (snd ji)) = Some child_info \<and>
             getLinkIndex (idyn_model st)
               (fst (getRenameElementFromConfig (parent_link_name (snd ji)) st)) = Some i1 \<and>
             getLinkIndex (idyn_model st)
               (fst (getRenameElementFromConfig (child_link_name (snd ji)) st)) = Some i2 \<and>
             joints (idyn_model st') = joints (idyn_model st) @
               [\<lparr>je_name = fst (getRenameElementFromConfig
                    (parent_link_name (snd ji) @ ''--'' @ child_link_name (snd ji)) st),
                 je_firstLink = i1, je_secondLink = i2, je_joint = joint\<rparr>] \<and>
             IJoint_transform joint =
               Transform_compose (Transform_inverse (root_H_link parent_info)) (root_H_link child_info) \<and>
             IJoint_axis joint =
               (if type (snd ji) = Revolute then
                  Some (let raw = snd (getRotationAxisFromPart h (modelhdl parent_info)
                                        (name (snd ji)) (root_H_link parent_info))
                        in if str_find (cfg_reverseRotationAxis (config st))
                                (fst (getRenameElementFromConfig
                                   (parent_link_name (snd ji) @ ''--'' @ child_link_name (snd ji)) st))
                              \<noteq> None
                           then Direction_reverse raw else raw)
                else None)
         else joints (idyn_model st') = joints (idyn_model st)"
proof -
  have fl: "fl = fst (joint_body h session ji st)" and st': "st' = snd (joint_body h session ji st)"
    using assms(2) by simp_all
  show ?thesis
  proof (cases "fl = Normal \<and> type (snd ji) \<noteq> OtherJointType")
    case True
    with joint_body_links [OF assms(1), of h session st] fl obtain i1 i2 where
      i1: "getLinkIndex (idyn_model st)
             (fst (getRenameElementFromConfig (parent_link_name (snd ji)) st)) = Some i1"
      and i2: "getLinkIndex (idyn_model st)
             (fst (getRenameElementFromConfig (child_link_name (snd ji)) st)) = Some i2"
      by auto
    show ?thesis
    proof (cases "type (snd ji)")
      case Revolute
      with True show ?thesis
        unfolding fl st' using assms(1)
        by (auto simp: joint_body_def Let_def split_beta add_joint_or_stop_joints i1 i2
            split: option.splits dest: revolute_joint_Some)
    next
      case Fixed
      with True show ?thesis
        unfolding fl st' using assms(1)
        by (auto simp: joint_body_def Let_def split_beta add_joint_or_stop_joints i1 i2
            split: option.splits)
    next
      case OtherJointType
      with True show ?thesis
        by simp
    qed
  next
    case False
    then show ?thesis
      unfolding fl st' using assms(1)
      by (cases "type (snd ji)")
        (auto simp: joint_body_def Let_def split_beta add_joint_or_stop_joints
          split: option.splits)
  qed
qed

lemmas arms_defs = host0_def cfg_arms_def session_arms_def traversed_st_def elbow_candidate_def
  dangling_candidate_def cfg0_def st0_def Model_empty_def unit_inertia_def

lemmas joint_step_defs = joint_body_def Let_def getRenameElementFromConfig_def
  add_joint_or_stop_def addJoint_def getLinkIndex_def revolute_joint_def printToMessageWindow_def
  Rotation_Identity_def

lemma elbow_step_Normal: "fst (joint_body host0 session_arms elbow_candidate traversed_st) = Normal"
  by (simp add: arms_defs joint_step_defs)

text \<open>The example tables are the ones the traversal of the two parts builds.\<close>

lemma traversal_example:
  "joint_info_map (snd (for_each (component_body host0) (asm_component_list session_arms)
      (st0\<lparr>config := cfg_arms\<rparr>))) = joint_info_map traversed_st"
  by (simp add: arms_defs component_body_def Let_def getRenameElementFromConfig_def
    link_frame_of_def computeSpatialInertiafromCreo_def populateJointInfoMap_def
    populateExportedFrameInfoMap_def exported_frame_body_def addMeshAndExport_def renamed_link_def
    mesh_link_name_def mesh_color_of_def mesh_file_format_def attach_shapes_def
    push_collision_def push_visual_def push_back_at_def getLinkIndex_def addLink_def isFrameNameUsed_def
    map_insert_def map_modify_def printToMessageWindow_def arm_1_def arm_2_def part_def)

text \<open>
  C3. For a candidate with a child, of kind Revolute or Fixed, for which the step of the
  joint loop runs to its end, both links are in the link table and the step appends one
  joint to the model, named by the renamed \<open>parent--child\<close>, attached first to the link of
  the renamed parent and second to the link of the renamed child, whose parent-to-child
  transform is the inverse of the parent link's root-to-link pose composed with the child
  link's root-to-link pose. When the parent's pose is rigid, the parent's pose composed
  with the stored transform is the child's pose, and a point given in the child's frame
  is carried to the same point of the root frame by the child's pose as by the stored
  transform followed by the parent's pose.
\<close>

theorem joint_parent_H_child:
  assumes "child_link_name (snd ji) \<noteq> []"
    and "type (snd ji) \<noteq> OtherJointType"
    and "fst (joint_body h session ji st) = Normal"
  shows "\<exists>parent_info child_info i1 i2 joint.
           map_of (link_info_map st) (parent_link_name (snd ji)) = Some parent_info \<and>
           map_of (link_info_map st) (child_link_name (snd ji)) = Some child_info \<and>
           getLinkIndex (idyn_model st)
             (fst (getRenameElementFromConfig (parent_link_name (snd ji)) st)) = Some i1 \<and>
           getLinkIndex (idyn_model st)
             (fst (getRenameElementFromConfig (child_link_name (snd ji)) st)) = Some i2 \<and>
           joints (idyn_model (snd (joint_body h session ji st))) = joints (idyn_model st) @
             [\<lparr>je_name = fst (getRenameElementFromConfig
                  (parent_link_name (snd ji) @ ''--'' @ child_link_name (snd ji)) st),
               je_firstLink = i1, je_secondLink = i2, je_joint = joint\<rparr>] \<and>
           IJoint_transform joint =
             Transform_compose (Transform_inverse (root_H_link parent_info)) (root_H_link child_info) \<and>
           (rigid (root_H_link parent_info) \<longrightarrow>
              Transform_compose (root_H_link parent_info) (IJoint_transform joint) =
                root_H_link child_info \<and>
              (\<forall>q. Transform_apply (root_H_link parent_info)
                     (Transform_apply (IJoint_transform joint) q) =
                   Transform_apply (root_H_link child_info) q))"
proof -
  have "joint_body h session ji st =
          (fst (joint_body h session ji st), snd (joint_body h session ji st))"
    by simp
  from joint_body_joints [OF assms(1) this] assms(2,3) obtain parent_info child_info i1 i2 joint
    where p: "map_of (link_info_map st) (parent_link_name (snd ji)) = Some parent_info"
      and c: "map_of (link_info_map st) (child_link_name (snd ji)) = Some child_info"
      and i1: "getLinkIndex (idyn_model st)
             (fst (getRenameElementFromConfig (parent_link_name (snd ji)) st)) = Some i1"
      and i2: "getLinkIndex (idyn_model st)
             (fst (getRenameElementFromConfig (child_link_name (snd ji)) st)) = Some i2"
      and j: "joints (idyn_model (snd (joint_body h session ji st))) = joints (idyn_model st) @
             [\<lparr>je_name = fst (getRenameElementFromConfig
                  (parent_link_name (snd ji) @ ''--'' @ child_link_name (snd ji)) st),
               je_firstLink = i1, je_secondLink = i2, je_joint = joint\<rparr>]"
      and t: "IJoint_transform joint =
             Transform_compose (Transform_inverse (root_H_link parent_info)) (root_H_link child_info)"
    by auto
  have "Transform_compose (root_H_link parent_info) (IJoint_transform joint) =
          root_H_link child_info"
    if "rigid (root_H_link parent_info)"
    unfolding t using that by (rule Transform_compose_inverse_cancel)
  moreover have "Transform_apply (root_H_link parent_info)
       (Transform_apply (IJoint_transform joint) q) = Transform_apply (root_H_link child_info) q"
    if "rigid (root_H_link parent_info)" for q
    unfolding t using that by (rule Transform_apply_inverse_cancel)
  ultimately show ?thesis
    using p c i1 i2 j t by blast
qed

theorem joint_parent_H_child_witness:
  "child_link_name (snd elbow_candidate) \<noteq> [] \<and>
   type (snd elbow_candidate) \<noteq> OtherJointType \<and>
   fst (joint_body host0 session_arms elbow_candidate traversed_st) = Normal \<and>
   rigid (Transform quarter_turn (Position 1 0 0)) \<and>
   map (\<lambda>j. (je_name j, je_firstLink j, je_secondLink j, IJoint_transform (je_joint j)))
     (joints (idyn_model (snd (joint_body host0 session_arms elbow_candidate traversed_st)))) =
     [(''elbow'', 0, 1, Transform (Rotation 0 1 0  (- 1) 0 0  0 0 1) (Position 0 1 2))] \<and>
   Transform_compose (Transform quarter_turn (Position 1 0 0))
     (Transform (Rotation 0 1 0  (- 1) 0 0  0 0 1) (Position 0 1 2)) =
     Transform Rotation_Identity (Position 0 0 2)"
proof -
  have c: "child_link_name (snd elbow_candidate) \<noteq> []"
    and t: "type (snd elbow_candidate) \<noteq> OtherJointType"
    by (simp_all add: elbow_candidate_def)
  have r: "rigid (Transform quarter_turn (Position 1 0 0))"
    by (simp add: quarter_turn_def Rotation_Identity_def)
  from joint_parent_H_child [OF c t elbow_step_Normal] c t elbow_step_Normal r show ?thesis
    by (auto simp: arms_defs getRenameElementFromConfig_def getLinkIndex_def quarter_turn_def
        Rotation_Identity_def)
qed

text \<open>
  C4. A candidate whose child link name is empty leaves the step with the converter
  unchanged: no joint is added and no message is written. The whole loop gives the same
  result as the loop over the table without such candidates.
\<close>

theorem dangling_candidate_dropped:
  "(child_link_name (snd joint_info) = [] \<longrightarrow> joint_body h session joint_info st = (Normal, st)) \<and>
   for_each (joint_body h session) candidates st =
     for_each (joint_body h session) (filter (\<lambda>ji. child_link_name (snd ji) \<noteq> []) candidates) st"
proof
  show "child_link_name (snd joint_info) = [] \<longrightarrow> joint_body h session joint_info st = (Normal, st)"
    by (simp add: joint_body_def)
  show "for_each (joint_body h session) candidates st =
     for_each (joint_body h session) (filter (\<lambda>ji. child_link_name (snd ji) \<noteq> []) candidates) st"
    by (rule for_each_skip) (simp add: joint_body_def)
qed

theorem dangling_candidate_dropped_witness:
  "child_link_name (snd dangling_candidate) = [] \<and>
   joint_body host0 session_arms dangling_candidate traversed_st = (Normal, traversed_st) \<and>
   for_each (joint_body host0 session_arms) (joint_info_map traversed_st) traversed_st =
     for_each (joint_body host0 session_arms) [elbow_candidate] traversed_st"
  using dangling_candidate_dropped
    [where joint_info = dangling_candidate and h = host0 and session = session_arms
      and st = traversed_st and candidates = "joint_info_map traversed_st"]
  by (simp add: dangling_candidate_def elbow_candidate_def traversed_st_def)

text \<open>
  C7. For a Revolute candidate with a child for which the step runs to its end, the axis
  stored in the joint appended to the model is the reverse of the direction that
  \<open>getRotationAxisFromPart\<close> returns when the renamed joint name occurs in the configured
  \<open>reverseRotationAxis\<close> string, and that direction unchanged when it does not.
  \<open>Direction_reverse\<close> negates the three coordinates.
\<close>

theorem revolute_axis_reversal:
  assumes "child_link_name (snd ji) \<noteq> []"
    and "type (snd ji) = Revolute"
    and "fst (joint_body h session ji st) = Normal"
  shows "\<exists>parent_info i1 i2 joint.
           map_of (link_info_map st) (parent_link_name (snd ji)) = Some parent_info \<and>
           joints (idyn_model (snd (joint_body h session ji st))) = joints (idyn_model st) @
             [\<lparr>je_name = fst (getRenameElementFromConfig
                  (parent_link_name (snd ji) @ ''--'' @ child_link_name (snd ji)) st),
               je_firstLink = i1, je_secondLink = i2, je_joint = joint\<rparr>] \<and>
           IJoint_axis joint =
             Some (let raw = snd (getRotationAxisFromPart h (modelhdl parent_info) (name (snd ji))
                                   (root_H_link parent_info))
                   in if sublist (fst (getRenameElementFromConfig
                           (parent_link_name (snd ji) @ ''--'' @ child_link_name (snd ji)) st))
                         (cfg_reverseRotationAxis (config st))
                      then Direction_reverse raw else raw)"
proof -
  have "joint_body h session ji st =
          (fst (joint_body h session ji st), snd (joint_body h session ji st))"
    by simp
  from joint_body_joints [OF assms(1) this] assms(2,3) show ?thesis
    unfolding str_find_sublist by auto
qed

theorem revolute_axis_reversal_witness:
  "child_link_name (snd elbow_candidate) \<noteq> [] \<and>
   type (snd elbow_candidate) = Revolute \<and>
   fst (joint_body host0 session_arms elbow_candidate traversed_st) = Normal \<and>
   sublist ''elbow'' (cfg_reverseRotationAxis (config traversed_st)) \<and>
   map (\<lambda>j. (je_name j, IJoint_axis (je_joint j)))
     (joints (idyn_model (snd (joint_body host0 session_arms elbow_candidate traversed_st)))) =
     [(''elbow'', Some (Direction 0 0 (- 1)))]"
proof -
  have c: "child_link_name (snd elbow_candidate) \<noteq> []"
    and t: "type (snd elbow_candidate) = Revolute"
    by (simp_all add: elbow_candidate_def)
  have s: "sublist ''elbow'' (cfg_reverseRotationAxis (config traversed_st))"
    unfolding str_find_sublist [symmetric] by (simp add: arms_defs)
  from revolute_axis_reversal [OF c t elbow_step_Normal] c t elbow_step_Normal s show ?thesis
    by (auto simp: arms_defs getRenameElementFromConfig_def)
qed

subsection \<open>The exported frames under the blanket export\<close>

lemma useradded_info_cong:
  "config st' = config st \<Longrightarrow> scale st' = scale st \<Longrightarrow>
     useradded_info h hdl li st' = useradded_info h hdl li st"
  by (simp add: useradded_info_def fun_eq_iff getRenameElementFromConfig_def split: option.split)

lemma exported_frame_body_skip:
  "exportAllUseradded st \<Longrightarrow>
   str_find c ''SCSYS'' = None \<or> map_of (exported_frame_info_map st) c \<noteq> None \<Longrightarrow>
   exported_frame_body h hdl c st = (Normal, st)"
  by (simp add: exported_frame_body_def Let_def)

lemma exported_frame_body_register:
  assumes "exportAllUseradded st"
    and "str_find c ''SCSYS'' \<noteq> None" and "map_of (exported_frame_info_map st) c = None"
    and "map_of (link_info_map st) (full_name hdl) = Some link_info"
  shows "exported_frame_body h hdl c st =
           (Normal, (snd (getRenameElementFromConfig (full_name hdl) st))
              \<lparr>exported_frame_info_map :=
                 map_modify c (\<lambda>e. e\<lparr>linkFrame_H_additionalFrame :=
                     linkFrame_H_additionalFrame (useradded_info h hdl link_info st c)\<rparr>)
                   (map_insert c (ef_info0\<lparr>frameReferenceLink :=
                        fst (getRenameElementFromConfig (full_name hdl) st),
                      exportedFrameName := c @ ''_USERADDED''\<rparr>) (exported_frame_info_map st))\<rparr>)"
proof -
  have 1: "exported_frame_info_map (snd (getRenameElementFromConfig (full_name hdl) st)) = exported_frame_info_map st"
    and 2: "scale (snd (getRenameElementFromConfig (full_name hdl) st)) = scale st"
    and 3: "exportAllUseradded (snd (getRenameElementFromConfig (full_name hdl) st)) = exportAllUseradded st"
    and 4: "link_info_map (snd (getRenameElementFromConfig (full_name hdl) st)) = link_info_map st"
    by (simp_all add: getRenameElementFromConfig_def printToMessageWindow_def split: option.split)
  show ?thesis
    using assms
    by (auto simp: exported_frame_body_def Let_def split_beta map_of_map_insert 1 2 useradded_info_def)
qed

lemma exported_frame_body_useradded:
  assumes "exportAllUseradded st"
    and "map_of (link_info_map st) (full_name hdl) = Some link_info"
  shows "fst (exported_frame_body h hdl c st) = Normal"
    and "exportAllUseradded (snd (exported_frame_body h hdl c st))"
    and "link_info_map (snd (exported_frame_body h hdl c st)) = link_info_map st"
    and "config (snd (exported_frame_body h hdl c st)) = config st"
    and "scale (snd (exported_frame_body h hdl c st)) = scale st"
    and "map_of (exported_frame_info_map (snd (exported_frame_body h hdl c st))) k =
           (if k = c \<and> str_find c ''SCSYS'' \<noteq> None \<and> map_of (exported_frame_info_map st) c = None
            then Some (useradded_info h hdl link_info st c)
            else map_of (exported_frame_info_map st) k)"
proof -
  have r: "exportAllUseradded (snd (getRenameElementFromConfig (full_name hdl) st)) = exportAllUseradded st"
    "link_info_map (snd (getRenameElementFromConfig (full_name hdl) st)) = link_info_map st"
    "scale (snd (getRenameElementFromConfig (full_name hdl) st)) = scale st"
    by (simp_all add: getRenameElementFromConfig_def printToMessageWindow_def split: option.split)
  consider (skip) "str_find c ''SCSYS'' = None \<or> map_of (exported_frame_info_map st) c \<noteq> None"
    | (register) "str_find c ''SCSYS'' \<noteq> None" "map_of (exported_frame_info_map st) c = None"
    by blast
  then have "fst (exported_frame_body h hdl c st) = Normal \<and>
    exportAllUseradded (snd (exported_frame_body h hdl c st)) \<and>
    link_info_map (snd (exported_frame_body h hdl c st)) = link_info_map st \<and>
    config (snd (exported_frame_body h hdl c st)) = config st \<and>
    scale (snd (exported_frame_body h hdl c st)) = scale st \<and>
    map_of (exported_frame_info_map (snd (exported_frame_body h hdl c st))) k =
           (if k = c \<and> str_find c ''SCSYS'' \<noteq> None \<and> map_of (exported_frame_info_map st) c = None
            then Some (useradded_info h hdl link_info st c)
            else map_of (exported_frame_info_map st) k)"
  proof cases
    case skip
    then show ?thesis
      using assms(1) by (auto simp: exported_frame_body_skip [OF assms(1) skip])
  next
    case register
    show ?thesis
      unfolding exported_frame_body_register [OF assms(1) register assms(2)]
      using assms(1) register
      by (simp add: r map_of_map_modify map_of_map_insert useradded_info_def ef_info0_def)
  qed
  then show "fst (exported_frame_body h hdl c st) = Normal"
    and "exportAllUseradded (snd (exported_frame_body h hdl c st))"
    and "link_info_map (snd (exported_frame_body h hdl c st)) = link_info_map st"
    and "config (snd (exported_frame_body h hdl c st)) = config st"
    and "scale (snd (exported_frame_body h hdl c st)) = scale st"
    and "map_of (exported_frame_info_map (snd (exported_frame_body h hdl c st))) k =
           (if k = c \<and> str_find c ''SCSYS'' \<noteq> None \<and> map_of (exported_frame_info_map st) c = None
            then Some (useradded_info h hdl link_info st c)
            else map_of (exported_frame_info_map st) k)"
    by simp_all
qed

lemma for_each_Normal_step:
  "fst (body x st) = Normal \<Longrightarrow> for_each body (x # xs) st = for_each body xs (snd (body x st))"
  by (cases "body x st") simp

lemma for_each_exported_frame_body:
  assumes "exportAllUseradded st"
    and "map_of (link_info_map st) (full_name hdl) = Some link_info"
  shows "fst (for_each (exported_frame_body h hdl) cs st) = Normal \<and>
         map_of (exported_frame_info_map (snd (for_each (exported_frame_body h hdl) cs st))) k =
           (if k \<in> set (marked cs) \<and> map_of (exported_frame_info_map st) k = None
            then Some (useradded_info h hdl link_info st k)
            else map_of (exported_frame_info_map st) k)"
  using assms
proof (induction cs arbitrary: st)
  case Nil
  then show ?case by (simp add: marked_def)
next
  case (Cons c cs)
  let ?st = "snd (exported_frame_body h hdl c st)"
  note b = exported_frame_body_useradded [OF Cons.prems, of h c]
  have link: "map_of (link_info_map ?st) (full_name hdl) = Some link_info"
    using Cons.prems b(3) by simp
  have info: "useradded_info h hdl link_info ?st = useradded_info h hdl link_info st"
    using b(4,5) by (rule useradded_info_cong)
  have step: "for_each (exported_frame_body h hdl) (c # cs) st =
                for_each (exported_frame_body h hdl) cs ?st"
    using b(1) by (rule for_each_Normal_step [where body = "exported_frame_body h hdl"])
  show ?case
    unfolding step
    using Cons.IH [OF b(2) link] b(6) [of k]
    by (auto simp: info marked_def)
qed

lemma populateExportedFrameInfoMap_useradded:
  assumes "exportAllUseradded st"
    and "map_of (link_info_map st) (full_name hdl) = Some link_info"
  shows "fst (populateExportedFrameInfoMap h hdl st) = Normal \<and>
         map_of (exported_frame_info_map (snd (populateExportedFrameInfoMap h hdl st))) k =
           (if k \<in> set (marked (coord_sys hdl)) \<and> map_of (exported_frame_info_map st) k = None
            then Some (useradded_info h hdl link_info st k)
            else map_of (exported_frame_info_map st) k)"
proof (cases "coord_sys hdl = []")
  case True
  then show ?thesis
    by (simp add: populateExportedFrameInfoMap_def Let_def printToMessageWindow_def marked_def)
next
  case False
  then show ?thesis
    using for_each_exported_frame_body [OF assms, of h "coord_sys hdl" k]
    by (simp add: populateExportedFrameInfoMap_def Let_def)
qed

text \<open>
  C5, as the code has it. With \<open>exportAllUseradded\<close> on, \<open>readExportedFramesFromConfig\<close>
  registers nothing. Visiting a part whose link is in the link table then runs to its
  end, and afterwards every coordinate system of the part whose name holds the marker
  \<^verbatim>\<open>SCSYS\<close> and that was not in the table has the entry \<open>useradded_info\<close>: the renamed
  link as reference and the name with \<^verbatim>\<open>_USERADDED\<close> appended. Every other key has the
  entry it had: a name already in the table is skipped, and a coordinate system without
  the marker is not registered.
\<close>

theorem useradded_frames:
  assumes "exportAllUseradded st"
    and "map_of (link_info_map st) (full_name hdl) = Some link_info"
  shows "readExportedFramesFromConfig h st = st \<and>
         fst (populateExportedFrameInfoMap h hdl st) = Normal \<and>
         map_of (exported_frame_info_map (snd (populateExportedFrameInfoMap h hdl st))) k =
           (if k \<in> set (marked (coord_sys hdl)) \<and> map_of (exported_frame_info_map st) k = None
            then Some (useradded_info h hdl link_info st k)
            else map_of (exported_frame_info_map st) k)"
  using assms populateExportedFrameInfoMap_useradded [OF assms, of h k]
  by (simp add: readExportedFramesFromConfig_def split: option.split)

lemmas tool_defs = tool_st_def cfg_tool_def hand_def part_def host0_def cfg0_def st0_def
  prepare_run_def clear_maps_def read_options_def readExportedFramesFromConfig_def
  readAssignedInertiasFromConfig_def readAssignedCollisionGeometryFromConfig_def

lemmas component_step_defs = component_body_def Let_def getRenameElementFromConfig_def
    link_frame_of_def computeSpatialInertiafromCreo_def populateJointInfoMap_def
    populateExportedFrameInfoMap_def exported_frame_body_def addMeshAndExport_def renamed_link_def
    mesh_link_name_def mesh_color_of_def mesh_file_format_def attach_shapes_def
    push_collision_def push_visual_def push_back_at_def getLinkIndex_def addLink_def isFrameNameUsed_def
    map_insert_def map_modify_def printToMessageWindow_def Model_empty_def ef_info0_def

theorem useradded_frames_witness:
  "exportAllUseradded tool_linked_st \<and>
   map_of (link_info_map tool_linked_st) (full_name hand) = Some hand_info \<and>
   readExportedFramesFromConfig host0 tool_linked_st = tool_linked_st \<and>
   fst (populateExportedFrameInfoMap host0 hand tool_linked_st) = Normal \<and>
   map_option exportedFrameName
     (map_of (exported_frame_info_map (snd (populateExportedFrameInfoMap host0 hand tool_linked_st)))
        ''SCSYS_TOOL'') = Some ''SCSYS_TOOL_USERADDED'' \<and>
   map_of (exported_frame_info_map (snd (populateExportedFrameInfoMap host0 hand tool_linked_st)))
     ''CSYS'' = None \<and>
   map_of (exported_frame_info_map (snd (populateExportedFrameInfoMap host0 hand tool_registered_st)))
     ''SCSYS_TOOL'' = Some tool_frame_info"
proof -
  have f: "exportAllUseradded tool_linked_st" "exportAllUseradded tool_registered_st"
    by (simp_all add: tool_registered_st_def tool_linked_st_def tool_defs)
  have l: "map_of (link_info_map tool_linked_st) (full_name hand) = Some hand_info"
    "map_of (link_info_map tool_registered_st) (full_name hand) = Some hand_info"
    by (simp_all add: tool_registered_st_def tool_linked_st_def hand_def part_def)
  have e: "exported_frame_info_map tool_linked_st = []"
    "exported_frame_info_map tool_registered_st = [(''SCSYS_TOOL'', tool_frame_info)]"
    by (simp_all add: tool_registered_st_def tool_linked_st_def tool_defs)
  show ?thesis
    using f(1) l(1)
      useradded_frames [OF f(1) l(1), where h = host0 and k = "''SCSYS_TOOL''"]
      useradded_frames [OF f(1) l(1), where h = host0 and k = "''CSYS''"]
      useradded_frames [OF f(2) l(2), where h = host0 and k = "''SCSYS_TOOL''"]
    by (simp add: e marked_def hand_def part_def useradded_info_def)
qed

text \<open>
  A name listed under \<open>exportedFrames\<close> is not skipped when the flag is on: the
  configuration lists \<open>SCSYS_TOOL\<close> as \<open>tool_frame\<close>, the table is empty when the
  traversal starts, and the part's step registers \<open>SCSYS_TOOL_USERADDED\<close>, for a
  coordinate system that is also a fixed-joint candidate. The coordinate system \<open>CSYS\<close>,
  which is no joint candidate, is not registered.
\<close>

theorem explicit_frame_counterexample:
  "cfg_exportAllUseradded (config tool_st) = Some True \<and>
   map_option (map (\<lambda>ef. (ef_frameName ef, ef_exportedFrameName ef)))
     (cfg_exportedFrames (config tool_st)) = Some [(''SCSYS_TOOL'', ''tool_frame'')] \<and>
   exportAllUseradded tool_st \<and>
   exported_frame_info_map tool_st = [] \<and>
   map (\<lambda>e. (fst e, exportedFrameName (snd e)))
     (exported_frame_info_map
        (snd (component_body host0 \<lparr>is_component = True, feat_model = hand\<rparr> tool_st))) =
     [(''SCSYS_TOOL'', ''SCSYS_TOOL_USERADDED'')] \<and>
   map (\<lambda>e. (fst e, type (snd e)))
     (joint_info_map
        (snd (component_body host0 \<lparr>is_component = True, feat_model = hand\<rparr> tool_st))) =
     [(''SCSYS_TOOL'', Fixed)]"
  by (simp add: tool_defs component_step_defs)

subsection \<open>The tables from one run to the next\<close>

text \<open>The joint loop and the end of the run leave the five tables as the traversal built
  them.\<close>

lemma tables_printToMessageWindow [simp]: "tables (printToMessageWindow m l st) = tables st"
  by (simp add: tables_def printToMessageWindow_def)

lemma tables_rename [simp]: "tables (snd (getRenameElementFromConfig x st)) = tables st"
  by (simp add: getRenameElementFromConfig_def split: option.split)

lemma tables_idyn_model [simp]: "tables (st\<lparr>idyn_model := m\<rparr>) = tables st"
  by (simp add: tables_def)

lemma tables_add_joint_or_stop [simp]:
  "tables (snd (add_joint_or_stop p c jn j st)) = tables st"
  by (simp add: add_joint_or_stop_def Let_def split_beta split: option.split)

lemma tables_joint_body [simp]: "tables (snd (joint_body h session ji st)) = tables st"
  by (simp add: joint_body_def Let_def split_beta split: option.split)

lemma for_each_preserves:
  assumes "\<And>x st. f (snd (body x st)) = f st"
  shows "f (snd (for_each body xs st)) = f st"
proof (induction xs arbitrary: st)
  case Nil
  show ?case by simp
next
  case (Cons x xs)
  show ?case
  proof (cases "body x st")
    case (Pair fl st')
    with assms [of x st] have "f st' = f st" by simp
    with Pair Cons.IH [of st'] show ?thesis by (cases fl) simp_all
  qed
qed

lemma fold_preserves:
  assumes "\<And>x st. f (g x st) = f st"
  shows "f (fold g xs st) = f st"
  by (induction xs arbitrary: st) (simp_all add: assms)

lemma tables_sensor_frame [simp]: "tables (sensor_frame s st) = tables st"
  by (simp add: sensor_frame_def split: prod.split bool.split)

lemma tables_ft_sensor_frame [simp]: "tables (ft_sensor_frame s st) = tables st"
  by (simp add: ft_sensor_frame_def Let_def split: prod.split bool.split option.split)

lemma tables_exported_frame [simp]: "tables (exported_frame e st) = tables st"
  by (simp add: exported_frame_def Let_def split: prod.split bool.split)

lemma tables_exportModelToUrdf [simp]: "tables (snd (exportModelToUrdf h m opts st)) = tables st"
  by (simp add: exportModelToUrdf_def tables_def printToMessageWindow_def)

lemma finish_run_tables: "fst (finish_run h sz st) = Normal \<and> tables (snd (finish_run h sz st)) = tables st"
proof -
  have "tables (fold exported_frame (exported_frame_info_map
            (fold ft_sensor_frame fts (fold sensor_frame ss st)))
          (fold ft_sensor_frame fts (fold sensor_frame ss st))) = tables st" for fts ss
    by (simp add: fold_preserves [where f = tables])
  then show ?thesis
    by (simp add: finish_run_def Let_def)
qed

lemma OnCommand_tables:
  assumes "begin_run h session st = (Normal, st1)"
    and "for_each (component_body h) (asm_component_list session) st1 = (Normal, st2)"
    and "joint_info_map st2 = []"
  shows "fst (OnCommand h session st) = Normal \<and> tables (snd (OnCommand h session st)) = tables st2"
  using assms finish_run_tables [of h _ st2]
  by (simp add: OnCommand_def Let_def split: prod.split flow.split)

lemma begin_run_loaded:
  assumes "yaml_file session = Loaded c" and "asm_component_list session \<noteq> []"
  shows "begin_run h session st =
           (Normal, prepare_run h
              (printToMessageWindow ''Please select the .csv configuration file'' INFO
                (printToMessageWindow
                  (''Configuration file '' @ yaml_path session @ '' was loaded successfully'') INFO
                  (printToMessageWindow ''Please select the .yaml configuration file'' INFO
                     (st\<lparr>idyn_model := Model_empty\<rparr>)\<lparr>config := c\<rparr>))))"
  using assms by (simp add: begin_run_def loadYamlConfig_def Let_def)

lemma clear_maps_empty: "joint_info_map st = [] \<Longrightarrow> clear_maps st = st"
  by (simp add: clear_maps_def)

lemma read_options_fields [simp]:
  "joint_info_map (read_options st) = joint_info_map st"
  "link_info_map (read_options st) = link_info_map st"
  "assigned_inertias_map (read_options st) = assigned_inertias_map st"
  "config (read_options st) = config st"
  by (simp_all add: read_options_def Let_def split: option.split)

lemma readExportedFramesFromConfig_fields [simp]:
  "joint_info_map (readExportedFramesFromConfig h st) = joint_info_map st"
  "link_info_map (readExportedFramesFromConfig h st) = link_info_map st"
  "assigned_inertias_map (readExportedFramesFromConfig h st) = assigned_inertias_map st"
  "config (readExportedFramesFromConfig h st) = config st"
  by (simp_all add: readExportedFramesFromConfig_def split: option.split)

lemma readAssignedInertiasFromConfig_fields [simp]:
  "joint_info_map (readAssignedInertiasFromConfig st) = joint_info_map st"
  "link_info_map (readAssignedInertiasFromConfig st) = link_info_map st"
  "config (readAssignedInertiasFromConfig st) = config st"
  "assigned_inertias_map (readAssignedInertiasFromConfig st) =
     (case cfg_assignedInertias (config st) of
        None \<Rightarrow> assigned_inertias_map st
      | Some ais \<Rightarrow> readAssignedInertias_loop ais (assigned_inertias_map st))"
  by (simp_all add: readAssignedInertiasFromConfig_def split: option.split)

lemma readAssignedCollisionGeometryFromConfig_fields [simp]:
  "joint_info_map (readAssignedCollisionGeometryFromConfig h st) = joint_info_map st"
  "link_info_map (readAssignedCollisionGeometryFromConfig h st) = link_info_map st"
  "assigned_inertias_map (readAssignedCollisionGeometryFromConfig h st) = assigned_inertias_map st"
  "config (readAssignedCollisionGeometryFromConfig h st) = config st"
  by (simp_all add: readAssignedCollisionGeometryFromConfig_def split: option.split)

text \<open>When the joint-candidate table is empty at the start of a run, no table is cleared.\<close>

lemma begin_run_keeps_tables:
  assumes "yaml_file session = Loaded c" and "asm_component_list session \<noteq> []"
    and "joint_info_map st = []"
  shows "joint_info_map (snd (begin_run h session st)) = []"
    and "link_info_map (snd (begin_run h session st)) = link_info_map st"
    and "assigned_inertias_map (snd (begin_run h session st)) =
           (case cfg_assignedInertias c of
              None \<Rightarrow> assigned_inertias_map st
            | Some ais \<Rightarrow> readAssignedInertias_loop ais (assigned_inertias_map st))"
    and "config (snd (begin_run h session st)) = c"
proof -
  define st' where "st' =
     printToMessageWindow ''Please select the .csv configuration file'' INFO
       (printToMessageWindow
          (''Configuration file '' @ yaml_path session @ '' was loaded successfully'') INFO
          (printToMessageWindow ''Please select the .yaml configuration file'' INFO
             (st\<lparr>idyn_model := Model_empty\<rparr>)\<lparr>config := c\<rparr>))"
  have f: "joint_info_map st' = []" "link_info_map st' = link_info_map st"
    "assigned_inertias_map st' = assigned_inertias_map st" "config st' = c"
    using assms(3) by (simp_all add: st'_def printToMessageWindow_def)
  have b: "snd (begin_run h session st) = prepare_run h st'"
    unfolding st'_def by (simp add: begin_run_loaded [OF assms(1,2)])
  show "joint_info_map (snd (begin_run h session st)) = []"
    and "link_info_map (snd (begin_run h session st)) = link_info_map st"
    and "assigned_inertias_map (snd (begin_run h session st)) =
           (case cfg_assignedInertias c of
              None \<Rightarrow> assigned_inertias_map st
            | Some ais \<Rightarrow> readAssignedInertias_loop ais (assigned_inertias_map st))"
    and "config (snd (begin_run h session st)) = c"
    unfolding b prepare_run_def clear_maps_empty [OF f(1)]
    by (simp_all add: f cong: option.case_cong)
qed

lemmas rerun_defs = session_first_def session_second_def cfg_first_def cfg_second_def base_no_axis_def
  part_def host0_def cfg0_def st0_def

lemma first_begin: "begin_run host0 session_first st0 = (Normal, first_prepared)"
  by (simp add: begin_run_def loadYamlConfig_def Let_def first_prepared_def rerun_defs
      prepare_run_def clear_maps_def read_options_def
      readExportedFramesFromConfig_def readAssignedInertiasFromConfig_def
      readAssignedCollisionGeometryFromConfig_def printToMessageWindow_def Model_empty_def
      map_insert_def)

lemma first_traversal:
  "fst (for_each (component_body host0) (asm_component_list session_first) first_prepared) = Normal \<and>
   tables (snd (for_each (component_body host0) (asm_component_list session_first) first_prepared)) =
     ([], [(''BASE'', \<lparr>li_name = ''base'', modelhdl = base_no_axis,
                        root_H_link = Transform Rotation_Identity (Position 0 0 0),
                        link_frame_name = []\<rparr>)], [], [(''base'', Array3 1 1 1)], [])"
  by (simp add: tables_def first_prepared_def rerun_defs component_step_defs)

lemma first_run:
  "fst (OnCommand host0 session_first st0) = Normal \<and>
   tables (snd (OnCommand host0 session_first st0)) =
     ([], [(''BASE'', \<lparr>li_name = ''base'', modelhdl = base_no_axis,
                        root_H_link = Transform Rotation_Identity (Position 0 0 0),
                        link_frame_name = []\<rparr>)], [], [(''base'', Array3 1 1 1)], [])"
proof -
  let ?t = "for_each (component_body host0) (asm_component_list session_first) first_prepared"
  have t: "?t = (Normal, snd ?t)"
    using first_traversal by (metis prod.collapse)
  have j: "joint_info_map (snd ?t) = []"
    using first_traversal by (simp add: tables_def)
  from OnCommand_tables [OF first_begin t j] first_traversal show ?thesis
    by simp
qed

text \<open>
  C8 does not hold on the code. The first run, on a part without axes and without marked
  coordinate systems, runs to its end and leaves the joint-candidate table empty, so the
  guard \<^verbatim>\<open>joint_info_map.size() > 0\<close> of the second run clears nothing: when the second
  traversal starts, the link table still holds \<open>BASE\<close> and the inertia table still holds
  \<open>(1, 1, 1)\<close> for the link although the configuration now says \<open>(2, 2, 2)\<close>, and the
  inertia computed for the link has 1 on its diagonal.
\<close>

theorem second_run_keeps_tables:
  "fst (OnCommand host0 session_first st0) = Normal \<and>
   joint_info_map (snd (OnCommand host0 session_first st0)) = [] \<and>
   fst (begin_run host0 session_second (snd (OnCommand host0 session_first st0))) = Normal \<and>
   map fst (link_info_map
     (snd (begin_run host0 session_second (snd (OnCommand host0 session_first st0))))) = [''BASE''] \<and>
   map_option (map (\<lambda>ai. (ai_linkName ai, ai_xx ai, ai_yy ai, ai_zz ai)))
     (cfg_assignedInertias (config
       (snd (begin_run host0 session_second (snd (OnCommand host0 session_first st0)))))) =
     Some [(''base'', 2, 2, 2)] \<and>
   assigned_inertias_map
     (snd (begin_run host0 session_second (snd (OnCommand host0 session_first st0)))) =
     [(''base'', Array3 1 1 1)] \<and>
   si_rotInertiaWrtCom
     (computeSpatialInertiafromCreo
        (snd (begin_run host0 session_second (snd (OnCommand host0 session_first st0))))
        base_no_axis Transform_Identity ''base'') 0 0 = 1"
proof -
  let ?st1 = "snd (OnCommand host0 session_first st0)"
  have y: "yaml_file session_second = Loaded cfg_second"
    and a: "asm_component_list session_second \<noteq> []"
    by (simp_all add: session_second_def session_first_def)
  have t: "joint_info_map ?st1 = []"
    "link_info_map ?st1 = [(''BASE'', \<lparr>li_name = ''base'', modelhdl = base_no_axis,
                        root_H_link = Transform Rotation_Identity (Position 0 0 0),
                        link_frame_name = []\<rparr>)]"
    "assigned_inertias_map ?st1 = [(''base'', Array3 1 1 1)]"
    using first_run by (simp_all add: tables_def)
  have n: "fst (begin_run host0 session_second ?st1) = Normal"
    by (simp add: begin_run_loaded [OF y a])
  have m: "assigned_inertias_map (snd (begin_run host0 session_second ?st1)) =
             [(''base'', Array3 1 1 1)]"
    by (simp add: begin_run_keeps_tables [OF y a t(1)] t cfg_second_def cfg0_def map_insert_def)
  have i: "si_rotInertiaWrtCom
     (computeSpatialInertiafromCreo (snd (begin_run host0 session_second ?st1))
        base_no_axis Transform_Identity ''base'') 0 0 = 1"
    by (simp add: computeSpatialInertiafromCreo_def Let_def inertia_tensor_loop_entry m)
  show ?thesis
    using first_run n t(1) m i
    by (simp add: begin_run_keeps_tables [OF y a t(1)] t cfg_second_def cfg0_def)
qed

subsection \<open>The markup handed to the exporter\<close>



lemma set_origin_fields [simp]:
  "idyn_model (set_origin xyz rpy st) = idyn_model st"
  "config (set_origin xyz rpy st) = config st"
  "exported_frame_info_map (set_origin xyz rpy st) = exported_frame_info_map st"
  "link_info_map (set_origin xyz rpy st) = link_info_map st"
  "joint_info_map (set_origin xyz rpy st) = joint_info_map st"
  "scale (set_origin xyz rpy st) = scale st"
  by (simp_all add: set_origin_def)













subsection \<open>The shapes of a link\<close>

lemma push_collision_Some:
  "push_collision n s m = Some m' \<longleftrightarrow>
     (\<exists>i. getLinkIndex m n = Some i \<and> i < length (collisionSolidShapes m) \<and>
          m' = m\<lparr>collisionSolidShapes :=
                   (collisionSolidShapes m)[i := collisionSolidShapes m ! i @ [s]]\<rparr>)"
  by (auto simp: push_collision_def push_back_at_def split: option.splits)

lemma push_visual_Some:
  "push_visual n s m = Some m' \<longleftrightarrow>
     (\<exists>i. getLinkIndex m n = Some i \<and> i < length (visualSolidShapes m) \<and>
          m' = m\<lparr>visualSolidShapes :=
                   (visualSolidShapes m)[i := visualSolidShapes m ! i @ [s]]\<rparr>)"
  by (auto simp: push_visual_def push_back_at_def split: option.splits)

lemma getLinkIndex_collision [simp]:
  "getLinkIndex (m\<lparr>collisionSolidShapes := c\<rparr>) n = getLinkIndex m n"
  by (simp add: getLinkIndex_def)

lemma attach_shapes_Some:
  assumes "attach_shapes n visualMesh st = Some m'"
  shows "\<exists>i. getLinkIndex (idyn_model st) n = Some i \<and>
           i < length (visualSolidShapes (idyn_model st)) \<and>
           (i < length (collisionSolidShapes (idyn_model st)) \<or>
            (\<exists>g. map_of (assigned_collision_geometry_map st) n = Some g \<and> shape g = ShapeNone)) \<and>
           visualSolidShapes m' =
             (visualSolidShapes (idyn_model st))
               [i := visualSolidShapes (idyn_model st) ! i @ [Mesh visualMesh]] \<and>
           collisionSolidShapes m' =
             (collisionSolidShapes (idyn_model st))
               [i := collisionSolidShapes (idyn_model st) ! i @
                  (case map_of (assigned_collision_geometry_map st) n of
                     None \<Rightarrow> [Mesh visualMesh]
                   | Some g \<Rightarrow>
                       (case shape g of
                          ShapeBox \<Rightarrow> [Box (get3 (size_cg g) 0) (get3 (size_cg g) 1)
                                        (get3 (size_cg g) 2) (link_H_geometry g)]
                        | ShapeCylinder \<Rightarrow> [Cylinder (length_cg g) (radius g) (link_H_geometry g)]
                        | ShapeSphere \<Rightarrow> [Sphere (radius g) (link_H_geometry g)]
                        | ShapeNone \<Rightarrow> []))]"
  using assms
  by (auto simp: attach_shapes_def Let_def push_collision_Some push_visual_Some
      split: option.splits ShapeType.splits)

lemma attach_shapes_stl_files [simp]:
  "attach_shapes n visualMesh (st\<lparr>stl_files := files\<rparr>) = attach_shapes n visualMesh st"
  by (simp add: attach_shapes_def)

lemma addMeshAndExport_Normal:
  assumes "fst (addMeshAndExport component_handle stl_transform st) = Normal"
  shows "\<exists>visualMesh m'.
           attach_shapes (renamed_link (config st) component_handle) visualMesh st = Some m' \<and>
           idyn_model (snd (addMeshAndExport component_handle stl_transform st)) = m'"
proof (cases "mesh_link_name (config st) (full_name component_handle)")
  case (Inl e)
  with assms show ?thesis by (simp add: addMeshAndExport_def)
next
  case (Inr link_child_name)
  note n = this
  show ?thesis
  proof (cases "mesh_file_format (config st) link_child_name")
    case (Inl e)
    with assms n show ?thesis by (simp add: addMeshAndExport_def Let_def)
  next
    case (Inr file_format)
    with assms n show ?thesis
      by (simp add: addMeshAndExport_def Let_def split: option.splits) blast
  qed
qed

text \<open>
  C9. When \<open>addMeshAndExport\<close> runs to its end for a part, the mesh is appended to the
  visual shapes of the part's link. For a link with an entry in the collision-geometry
  table, the shape appended to its collision shapes is the configured box, cylinder or
  sphere with its placement, and not the mesh (an entry of shape \<open>None\<close> appends nothing);
  for a link without an entry it is the same mesh. The shapes of the other links are
  unchanged.
\<close>

theorem mesh_and_collision_shapes:
  assumes "fst (addMeshAndExport component_handle stl_transform st) = Normal"
  shows "\<exists>i visualMesh.
           getLinkIndex (idyn_model st) (renamed_link (config st) component_handle) = Some i \<and>
           i < length (visualSolidShapes (idyn_model st)) \<and>
           (i < length (collisionSolidShapes (idyn_model st)) \<or>
            (\<exists>g. map_of (assigned_collision_geometry_map st)
                    (renamed_link (config st) component_handle) = Some g \<and> shape g = ShapeNone)) \<and>
           visualSolidShapes (idyn_model (snd (addMeshAndExport component_handle stl_transform st))) =
             (visualSolidShapes (idyn_model st))
               [i := visualSolidShapes (idyn_model st) ! i @ [Mesh visualMesh]] \<and>
           collisionSolidShapes (idyn_model (snd (addMeshAndExport component_handle stl_transform st))) =
             (collisionSolidShapes (idyn_model st))
               [i := collisionSolidShapes (idyn_model st) ! i @
                  (case map_of (assigned_collision_geometry_map st)
                          (renamed_link (config st) component_handle) of
                     None \<Rightarrow> [Mesh visualMesh]
                   | Some g \<Rightarrow>
                       (case shape g of
                          ShapeBox \<Rightarrow> [Box (get3 (size_cg g) 0) (get3 (size_cg g) 1)
                                        (get3 (size_cg g) 2) (link_H_geometry g)]
                        | ShapeCylinder \<Rightarrow> [Cylinder (length_cg g) (radius g) (link_H_geometry g)]
                        | ShapeSphere \<Rightarrow> [Sphere (radius g) (link_H_geometry g)]
                        | ShapeNone \<Rightarrow> []))]"
proof -
  from addMeshAndExport_Normal [OF assms] obtain visualMesh m' where
    a: "attach_shapes (renamed_link (config st) component_handle) visualMesh st = Some m'"
    and m: "idyn_model (snd (addMeshAndExport component_handle stl_transform st)) = m'"
    by auto
  from attach_shapes_Some [OF a] show ?thesis
    unfolding m by blast
qed

lemmas mesh_defs = addMeshAndExport_def renamed_link_def mesh_link_name_def mesh_color_of_def
  mesh_file_format_def attach_shapes_def push_collision_def push_visual_def
  push_back_at_def getLinkIndex_def Let_def

lemmas collision_example_defs = collision_st_def box_info_def grey_mesh_def arms_defs arm_1_def
  arm_2_def part_def

lemma arm_1_mesh_Normal: "fst (addMeshAndExport arm_1 [] collision_st) = Normal"
  by (simp add: mesh_defs collision_example_defs)

lemma arm_2_mesh_Normal: "fst (addMeshAndExport arm_2 [] collision_st) = Normal"
  by (simp add: mesh_defs collision_example_defs)

theorem mesh_and_collision_shapes_witness:
  "fst (addMeshAndExport arm_1 [] collision_st) = Normal \<and>
   fst (addMeshAndExport arm_2 [] collision_st) = Normal \<and>
   map_of (assigned_collision_geometry_map collision_st) (renamed_link (config collision_st) arm_1) =
     Some box_info \<and>
   map_of (assigned_collision_geometry_map collision_st) (renamed_link (config collision_st) arm_2) =
     None \<and>
   visualSolidShapes (idyn_model (snd (addMeshAndExport arm_1 [] collision_st))) =
     [[Mesh (grey_mesh ''ARM_1.stl'')], []] \<and>
   collisionSolidShapes (idyn_model (snd (addMeshAndExport arm_1 [] collision_st))) =
     [[Box 1 2 3 Transform_Identity], []] \<and>
   visualSolidShapes (idyn_model (snd (addMeshAndExport arm_2 [] collision_st))) =
     [[], [Mesh (grey_mesh ''ARM_2.stl'')]] \<and>
   collisionSolidShapes (idyn_model (snd (addMeshAndExport arm_2 [] collision_st))) =
     [[], [Mesh (grey_mesh ''ARM_2.stl'')]]"
  using mesh_and_collision_shapes [OF arm_1_mesh_Normal] mesh_and_collision_shapes [OF arm_2_mesh_Normal]
    arm_1_mesh_Normal arm_2_mesh_Normal
  by (simp add: mesh_defs collision_example_defs)

end
